theory Spec2Isabelle
  imports Main "HOL-Library.Word" "HOL-Library.Sublist"
begin

section \<open>JavaScript strings\<close>

text \<open>
  A JavaScript string is a sequence of 16-bit UTF-16 code units: \<open>length\<close>,
  \<open>substring\<close>, \<open>trim\<close>, the regular expression of \<open>containsInvalidValue\<close>
  (no \<open>u\<close> flag) and \<open>replace\<close> all work on code units, and
  \<open>encodeURIComponent\<close> reads surrogate pairs out of them. A string literal of the
  source is written \<open>js ''...''\<close>.
\<close>

type_synonym code_unit = "16 word"
type_synonym jsstring = "code_unit list"

definition cu :: "char \<Rightarrow> code_unit" where
  "cu c = of_nat (of_char c)"

definition js :: "string \<Rightarrow> jsstring" where
  "js s = map cu s"

text \<open>\<open>Array.prototype.join\<close> on an array of strings.\<close>

fun join :: "jsstring \<Rightarrow> jsstring list \<Rightarrow> jsstring" where
  "join sep [] = []"
| "join sep [x] = x"
| "join sep (x # y # ys) = x @ sep @ join sep (y # ys)"

text \<open>
  White space and line terminators of ECMAScript (\<open>WhiteSpace\<close> and
  \<open>LineTerminator\<close>): what \<open>String.prototype.trim\<close> strips and what
  \<open>Number\<close> allows around a numeric literal.
\<close>

definition is_whitespace :: "code_unit \<Rightarrow> bool" where
  "is_whitespace c =
     (c = 0x0009 \<or> c = 0x000A \<or> c = 0x000B \<or> c = 0x000C \<or> c = 0x000D \<or> c = 0x0020 \<or>
      c = 0x00A0 \<or> c = 0x1680 \<or> (0x2000 \<le> c \<and> c \<le> 0x200A) \<or> c = 0x2028 \<or>
      c = 0x2029 \<or> c = 0x202F \<or> c = 0x205F \<or> c = 0x3000 \<or> c = 0xFEFF)"

definition trim :: "jsstring \<Rightarrow> jsstring" where
  "trim s = rev (dropWhile is_whitespace (rev (dropWhile is_whitespace s)))"

text \<open>\<open>String.prototype.substring(start, end)\<close>: both indices are clamped to
  \<open>0 .. length\<close> and swapped when \<open>start > end\<close>.\<close>

definition substring :: "jsstring \<Rightarrow> int \<Rightarrow> int \<Rightarrow> jsstring" where
  "substring s start end' =
     (let len = int (length s);
          a = min (max start 0) len;
          b = min (max end' 0) len;
          from = min a b;
          to = max a b
      in take (nat (to - from)) (drop (nat from) s))"

text \<open>The decimal form of a natural number, as the template literal prints an integer
  such as \<open>response.status\<close>.\<close>

definition digit_char :: "nat \<Rightarrow> code_unit" where
  "digit_char d = of_nat (48 + d)"

fun decimal :: "nat \<Rightarrow> jsstring" where
  "decimal n = (if n < 10 then [digit_char n] else decimal (n div 10) @ [digit_char (n mod 10)])"

declare decimal.simps [simp del]

definition number_to_string :: "int \<Rightarrow> jsstring" where
  "number_to_string i = (if i < 0 then cu CHR ''-'' # decimal (nat (- i)) else decimal (nat i))"

section \<open>JavaScript values and errors\<close>

text \<open>
  An \<open>Error\<close> object (or an object of a subclass: \<open>TypeError\<close>,
  \<open>URIError\<close>, node-fetch's \<open>FetchError\<close>) with its \<open>name\<close> and its
  \<open>message\<close>. Every \<open>throw\<close> of the source throws one, and so do the runtime
  and the fetch library.
\<close>

datatype error_object = ErrorObject (error_name: jsstring) (error_message: jsstring)

text \<open>\<open>new Error(message)\<close>.\<close>

definition new_Error :: "jsstring \<Rightarrow> error_object" where
  "new_Error msg = ErrorObject (js ''Error'') msg"

text \<open>
  The values a \<open>catch\<close> clause can bind (its variable has type \<open>unknown\<close>):
  primitives, \<open>Error\<close> objects, and plain objects with data properties (object
  literals, which print through \<open>Object.prototype.toString\<close>).
\<close>

datatype js_value =
    JUndefined
  | JNull
  | JBoolean bool
  | JNumber int
  | JString jsstring
  | JError error_object
  | JObject "(jsstring \<times> js_value) list"

fun js_typeof :: "js_value \<Rightarrow> jsstring" where
  "js_typeof JUndefined = js ''undefined''"
| "js_typeof JNull = js ''object''"
| "js_typeof (JBoolean b) = js ''boolean''"
| "js_typeof (JNumber n) = js ''number''"
| "js_typeof (JString s) = js ''string''"
| "js_typeof (JError e) = js ''object''"
| "js_typeof (JObject ps) = js ''object''"

text \<open>The own property names of \<open>Object.prototype\<close>, which every ordinary object
  inherits.\<close>

definition Object_prototype_keys :: "jsstring list" where
  "Object_prototype_keys =
     [js ''constructor'', js ''__defineGetter__'', js ''__defineSetter__'',
      js ''hasOwnProperty'', js ''__lookupGetter__'', js ''__lookupSetter__'',
      js ''isPrototypeOf'', js ''propertyIsEnumerable'', js ''toString'', js ''valueOf'',
      js ''__proto__'', js ''toLocaleString'']"

text \<open>\<open>key in v\<close> for an object \<open>v\<close> (the source applies \<open>in\<close> to objects
  only: \<open>typeof e === "object" && e !== null\<close> is checked first).\<close>

fun js_in :: "jsstring \<Rightarrow> js_value \<Rightarrow> bool" where
  "js_in k (JError e) =
     (k = js ''message'' \<or> k = js ''name'' \<or> k = js ''stack'' \<or> k \<in> set Object_prototype_keys)"
| "js_in k (JObject ps) = (k \<in> set (map fst ps) \<or> k \<in> set Object_prototype_keys)"
| "js_in k v = False"

text \<open>\<open>v.message\<close>.\<close>

fun js_get_message :: "js_value \<Rightarrow> js_value" where
  "js_get_message (JError e) = JString (error_message e)"
| "js_get_message (JObject ps) =
     (case map_of ps (js ''message'') of Some v \<Rightarrow> v | None \<Rightarrow> JUndefined)"
| "js_get_message v = JUndefined"

text \<open>\<open>Error.prototype.toString\<close>.\<close>

definition Error_toString :: "error_object \<Rightarrow> jsstring" where
  "Error_toString e =
     (if error_name e = [] then error_message e
      else if error_message e = [] then error_name e
      else error_name e @ js '': '' @ error_message e)"

text \<open>\<open>ToString\<close>, as a template literal applies it to an interpolated value. A plain
  object prints through \<open>Object.prototype.toString\<close>.\<close>

fun js_ToString :: "js_value \<Rightarrow> jsstring" where
  "js_ToString JUndefined = js ''undefined''"
| "js_ToString JNull = js ''null''"
| "js_ToString (JBoolean b) = (if b then js ''true'' else js ''false'')"
| "js_ToString (JNumber n) = number_to_string n"
| "js_ToString (JString s) = s"
| "js_ToString (JError e) = Error_toString e"
| "js_ToString (JObject ps) = js ''[object Object]''"

text \<open>The type guard of the source.\<close>

definition isError :: "js_value \<Rightarrow> bool" where
  "isError e =
     (js_typeof e = js ''object'' \<and>
      e \<noteq> JNull \<and>
      js_in (js ''message'') e \<and>
      js_typeof (js_get_message e) = js ''string'')"

section \<open>\<open>Number(string)\<close> and \<open>isNaN\<close>\<close>

text \<open>
  \<open>Number(s)\<close> is \<open>NaN\<close> exactly when \<open>s\<close> is not a
  \<open>StringNumericLiteral\<close>: optional white space around nothing, a signed decimal
  literal (\<open>Infinity\<close>, digits with an optional fraction and exponent) or an unsigned
  binary, octal or hexadecimal integer literal.
\<close>

definition is_digit :: "code_unit \<Rightarrow> bool" where
  "is_digit c = (0x30 \<le> c \<and> c \<le> 0x39)"

definition is_sign :: "code_unit \<Rightarrow> bool" where
  "is_sign c = (c = cu CHR ''+'' \<or> c = cu CHR ''-'')"

definition is_DecimalDigits :: "jsstring \<Rightarrow> bool" where
  "is_DecimalDigits s = (s \<noteq> [] \<and> list_all is_digit s)"

definition is_SignedInteger :: "jsstring \<Rightarrow> bool" where
  "is_SignedInteger s =
     (case s of [] \<Rightarrow> False
      | c # r \<Rightarrow> if is_sign c then is_DecimalDigits r else is_DecimalDigits s)"

definition is_ExponentPart_opt :: "jsstring \<Rightarrow> bool" where
  "is_ExponentPart_opt s =
     (case s of [] \<Rightarrow> True
      | c # r \<Rightarrow> (c = cu CHR ''e'' \<or> c = cu CHR ''E'') \<and> is_SignedInteger r)"

definition is_StrUnsignedDecimalLiteral :: "jsstring \<Rightarrow> bool" where
  "is_StrUnsignedDecimalLiteral s =
     (s = js ''Infinity'' \<or>
      (let ds = takeWhile is_digit s; r = dropWhile is_digit s
       in case r of
            [] \<Rightarrow> ds \<noteq> []
          | c # r' \<Rightarrow>
              if c = cu CHR ''.''
              then (ds \<noteq> [] \<or> takeWhile is_digit r' \<noteq> []) \<and>
                   is_ExponentPart_opt (dropWhile is_digit r')
              else ds \<noteq> [] \<and> is_ExponentPart_opt r))"

definition is_StrDecimalLiteral :: "jsstring \<Rightarrow> bool" where
  "is_StrDecimalLiteral s =
     (case s of [] \<Rightarrow> False
      | c # r \<Rightarrow>
          if is_sign c then is_StrUnsignedDecimalLiteral r else is_StrUnsignedDecimalLiteral s)"

definition is_hex_digit :: "code_unit \<Rightarrow> bool" where
  "is_hex_digit c = (is_digit c \<or> (0x41 \<le> c \<and> c \<le> 0x46) \<or> (0x61 \<le> c \<and> c \<le> 0x66))"

definition is_NonDecimalIntegerLiteral :: "jsstring \<Rightarrow> bool" where
  "is_NonDecimalIntegerLiteral s =
     (case s of
        z # x # ds \<Rightarrow>
          z = cu CHR ''0'' \<and> ds \<noteq> [] \<and>
          (((x = cu CHR ''b'' \<or> x = cu CHR ''B'') \<and> list_all (\<lambda>c. 0x30 \<le> c \<and> c \<le> 0x31) ds) \<or>
           ((x = cu CHR ''o'' \<or> x = cu CHR ''O'') \<and> list_all (\<lambda>c. 0x30 \<le> c \<and> c \<le> 0x37) ds) \<or>
           ((x = cu CHR ''x'' \<or> x = cu CHR ''X'') \<and> list_all is_hex_digit ds))
      | _ \<Rightarrow> False)"

definition is_StringNumericLiteral :: "jsstring \<Rightarrow> bool" where
  "is_StringNumericLiteral s =
     (let t = trim s in t = [] \<or> is_StrDecimalLiteral t \<or> is_NonDecimalIntegerLiteral t)"

text \<open>\<open>isNaN(Number(s))\<close>.\<close>

definition isNaN_Number :: "jsstring \<Rightarrow> bool" where
  "isNaN_Number s = (\<not> is_StringNumericLiteral s)"

section \<open>\<open>encodeURIComponent\<close>\<close>

text \<open>The characters \<open>encodeURIComponent\<close> leaves as they are: ASCII letters, digits
  and \<open>- _ . ! ~ * ' ( )\<close>.\<close>

definition uriUnreserved :: "code_unit \<Rightarrow> bool" where
  "uriUnreserved c =
     ((0x41 \<le> c \<and> c \<le> 0x5A) \<or> (0x61 \<le> c \<and> c \<le> 0x7A) \<or> (0x30 \<le> c \<and> c \<le> 0x39) \<or>
      c = 0x2D \<or> c = 0x5F \<or> c = 0x2E \<or> c = 0x21 \<or> c = 0x7E \<or> c = 0x2A \<or> c = 0x27 \<or>
      c = 0x28 \<or> c = 0x29)"

definition is_leading_surrogate :: "code_unit \<Rightarrow> bool" where
  "is_leading_surrogate c = (0xD800 \<le> c \<and> c \<le> 0xDBFF)"

definition is_trailing_surrogate :: "code_unit \<Rightarrow> bool" where
  "is_trailing_surrogate c = (0xDC00 \<le> c \<and> c \<le> 0xDFFF)"

definition surrogate_pair_to_code_point :: "code_unit \<Rightarrow> code_unit \<Rightarrow> nat" where
  "surrogate_pair_to_code_point lead trail =
     (unat lead - 0xD800) * 0x400 + (unat trail - 0xDC00) + 0x10000"

definition utf8_octets :: "nat \<Rightarrow> nat list" where
  "utf8_octets cp =
     (if cp < 0x80 then [cp]
      else if cp < 0x800 then [0xC0 + cp div 0x40, 0x80 + cp mod 0x40]
      else if cp < 0x10000
      then [0xE0 + cp div 0x1000, 0x80 + (cp div 0x40) mod 0x40, 0x80 + cp mod 0x40]
      else [0xF0 + cp div 0x40000, 0x80 + (cp div 0x1000) mod 0x40,
            0x80 + (cp div 0x40) mod 0x40, 0x80 + cp mod 0x40])"

definition hex_char :: "nat \<Rightarrow> code_unit" where
  "hex_char d = (if d < 10 then of_nat (0x30 + d) else of_nat (0x41 + (d - 10)))"

definition percent_octet :: "nat \<Rightarrow> jsstring" where
  "percent_octet b = [cu CHR ''%'', hex_char (b div 16), hex_char (b mod 16)]"

definition percent_encode :: "nat \<Rightarrow> jsstring" where
  "percent_encode cp = concat (map percent_octet (utf8_octets cp))"

definition URIError_malformed :: error_object where
  "URIError_malformed = ErrorObject (js ''URIError'') (js ''URI malformed'')"

text \<open>The abstract operation \<open>Encode\<close> with the unreserved set of
  \<open>encodeURIComponent\<close>: an unpaired surrogate throws a \<open>URIError\<close>.\<close>

fun encodeURIComponent :: "jsstring \<Rightarrow> error_object + jsstring" where
  "encodeURIComponent [] = Inr []"
| "encodeURIComponent (c # cs) =
     (if uriUnreserved c then
        (case encodeURIComponent cs of Inl e \<Rightarrow> Inl e | Inr r \<Rightarrow> Inr (c # r))
      else if is_trailing_surrogate c then Inl URIError_malformed
      else if is_leading_surrogate c then
        (case cs of
           [] \<Rightarrow> Inl URIError_malformed
         | d # ds \<Rightarrow>
             if is_trailing_surrogate d then
               (case encodeURIComponent ds of
                  Inl e \<Rightarrow> Inl e
                | Inr r \<Rightarrow> Inr (percent_encode (surrogate_pair_to_code_point c d) @ r))
             else Inl URIError_malformed)
      else
        (case encodeURIComponent cs of
           Inl e \<Rightarrow> Inl e
         | Inr r \<Rightarrow> Inr (percent_encode (unat c) @ r)))"

text \<open>\<open>String.prototype.isWellFormed\<close>: no unpaired surrogate.\<close>

fun isWellFormed :: "jsstring \<Rightarrow> bool" where
  "isWellFormed [] = True"
| "isWellFormed (c # cs) =
     (if is_leading_surrogate c then
        (case cs of [] \<Rightarrow> False | d # ds \<Rightarrow> is_trailing_surrogate d \<and> isWellFormed ds)
      else \<not> is_trailing_surrogate c \<and> isWellFormed cs)"

section \<open>\<open>String.prototype.replace\<close> with a string pattern\<close>

text \<open>The index of the first occurrence of the pattern.\<close>

fun indexOf :: "jsstring \<Rightarrow> jsstring \<Rightarrow> nat option" where
  "indexOf pat [] = (if pat = [] then Some 0 else None)"
| "indexOf pat (c # cs) =
     (if prefix pat (c # cs) then Some 0 else map_option Suc (indexOf pat cs))"

text \<open>
  \<open>GetSubstitution\<close> for a match without captures: in the replacement text a dollar
  sign followed by a dollar sign, an ampersand, a grave accent (\<open>0x60\<close>) or an
  apostrophe stands for a dollar sign, the match, the text before it and the text after
  it; any other dollar sign stands for itself.
\<close>

fun GetSubstitution :: "jsstring \<Rightarrow> jsstring \<Rightarrow> jsstring \<Rightarrow> jsstring \<Rightarrow> jsstring" where
  "GetSubstitution matched preceding following [] = []"
| "GetSubstitution matched preceding following [c] = [c]"
| "GetSubstitution matched preceding following (c # d # ds) =
     (if c = cu CHR ''$'' then
        (if d = cu CHR ''$'' then c # GetSubstitution matched preceding following ds
         else if d = cu CHR ''&'' then matched @ GetSubstitution matched preceding following ds
         else if d = 0x60 then preceding @ GetSubstitution matched preceding following ds
         else if d = 0x27 then following @ GetSubstitution matched preceding following ds
         else c # GetSubstitution matched preceding following (d # ds))
      else c # GetSubstitution matched preceding following (d # ds))"

definition replace :: "jsstring \<Rightarrow> jsstring \<Rightarrow> jsstring \<Rightarrow> jsstring" where
  "replace s pat replacement =
     (case indexOf pat s of
        None \<Rightarrow> s
      | Some i \<Rightarrow>
          (let preceding = take i s; following = drop (i + length pat) s
           in preceding @ GetSubstitution pat preceding following replacement @ following))"

section \<open>The URL resolver\<close>

record SubgraphUrls =
  decentralized :: jsstring

definition SUBGRAPH_URLS :: "(jsstring \<times> SubgraphUrls) list" where
  "SUBGRAPH_URLS =
     [(js ''1'', \<lparr>decentralized =
         js ''https://gateway.thegraph.com/api/[api-key]/subgraphs/id/GTEyHhRmhRRJkQfrDWsapcZ8sBKAka4GFej6gn3BpJNq''\<rparr>),
      (js ''10'', \<lparr>decentralized =
         js ''https://gateway.thegraph.com/api/[api-key]/subgraphs/id/HVhUwbDrY5uGyz5u3bvKQVfmagVet3Uwy7jWjFrvT6s6''\<rparr>),
      (js ''8453'', \<lparr>decentralized =
         js ''https://gateway.thegraph.com/api/[api-key]/subgraphs/id/HzQEXpsJuq7XQa4zXEJU38aUnG7mgZ6gA74HauHyYZzQ''\<rparr>),
      (js ''42161'', \<lparr>decentralized =
         js ''https://gateway.thegraph.com/api/[api-key]/subgraphs/id/2ufoztRpybsgogPVW6j9NTn1JmBWFYPKbP7pAabizADU''\<rparr>)]"

text \<open>
  \<open>SUBGRAPH_URLS[chainId]\<close>: an own property of the object literal, a property
  inherited from \<open>Object.prototype\<close> (a function or, for \<open>__proto__\<close>, the prototype
  itself: truthy, and without a \<open>decentralized\<close> property), or \<open>undefined\<close>.
\<close>

datatype property_lookup = Own SubgraphUrls | Inherited | Undefined

definition lookup_SUBGRAPH_URLS :: "jsstring \<Rightarrow> property_lookup" where
  "lookup_SUBGRAPH_URLS chainId =
     (case map_of SUBGRAPH_URLS chainId of
        Some urls \<Rightarrow> Own urls
      | None \<Rightarrow> if chainId \<in> set Object_prototype_keys then Inherited else Undefined)"

text \<open>\<open>Object.keys(SUBGRAPH_URLS)\<close>: the four keys are integer indices, listed in
  ascending numeric order, which is the order of the literal.\<close>

definition Object_keys_SUBGRAPH_URLS :: "jsstring list" where
  "Object_keys_SUBGRAPH_URLS = map fst SUBGRAPH_URLS"

definition prepareUrl :: "jsstring \<Rightarrow> jsstring \<Rightarrow> error_object + jsstring" where
  "prepareUrl chainId apiKey =
     (let urls = lookup_SUBGRAPH_URLS chainId in
      if urls = Undefined \<or> isNaN_Number chainId then
        (let supportedChainIds = join (js '', '') Object_keys_SUBGRAPH_URLS in
         Inl (new_Error
           (js ''Unsupported or invalid Chain ID provided: '' @ chainId @
            js ''. Only the following values are accepted: '' @ supportedChainIds)))
      else
        (case urls of
           Own u \<Rightarrow>
             (case encodeURIComponent apiKey of
                Inl e \<Rightarrow> Inl e
              | Inr encoded \<Rightarrow> Inr (replace (decentralized u) (js ''[api-key]'') encoded))
         | _ \<Rightarrow>
             Inl (ErrorObject (js ''TypeError'')
                    (js ''Cannot read properties of undefined (reading 'replace')''))))"

section \<open>Validation and truncation of display names\<close>

text \<open>
  The regular expression \<open>/<[^>]*>/\<close> matched at the start of a string: a \<open><\<close>,
  then as many code units other than \<open>>\<close> as there are (the class is negated, so it
  also matches line terminators; giving some back cannot help, none of them is a
  \<open>>\<close>), then a \<open>>\<close>.
\<close>

definition match_tag_here :: "jsstring \<Rightarrow> bool" where
  "match_tag_here s =
     (case s of
        [] \<Rightarrow> False
      | c # r \<Rightarrow> c = cu CHR ''<'' \<and> dropWhile (\<lambda>x. x \<noteq> cu CHR ''>'') r \<noteq> [])"

text \<open>\<open>/<[^>]*>/.test(text)\<close>: the expression has no \<open>g\<close> or \<open>y\<close> flag, so every
  call tries each start index from the left and keeps no state.\<close>

fun regex_test_tag :: "jsstring \<Rightarrow> bool" where
  "regex_test_tag [] = False"
| "regex_test_tag (c # cs) = (match_tag_here (c # cs) \<or> regex_test_tag cs)"

definition containsInvalidValue :: "jsstring \<Rightarrow> bool" where
  "containsInvalidValue text' =
     (let containsHtml = regex_test_tag text';
          isEmpty = (trim text' = [])
      in isEmpty \<or> containsHtml)"

definition truncateString :: "jsstring \<Rightarrow> int \<Rightarrow> jsstring" where
  "truncateString text' maxLength =
     (if int (length text') > maxLength
      then substring text' 0 (maxLength - 3) @ js ''...''
      else text')"

section \<open>Records, responses and the world\<close>

record Silo =
  id' :: jsstring
  name :: jsstring
  createdTimestamp :: int

text \<open>The response body as the source declares it: \<open>data\<close> and \<open>errors\<close> are
  optional, and the source also checks that \<open>data.silos\<close> is there.\<close>

record GraphQLError =
  message :: jsstring

record GraphQLData =
  data_silos :: "Silo list option"

record GraphQLResponse =
  data :: "GraphQLData option"
  errors :: "GraphQLError list option"

text \<open>
  What a body parses to: \<open>null\<close>, or a value whose \<open>errors\<close> and \<open>data\<close> can
  be read, of the shape the source declares. (A number, a string, a boolean or an array
  has neither property: it reads as the object with both absent.)
\<close>

datatype json_body = JsonNull | JsonObject GraphQLResponse

text \<open>What \<open>fetch\<close> resolves to: \<open>ok\<close>, \<open>status\<close>, and what \<open>response.json()\<close>
  gives (it rejects with an error when the body is not JSON).\<close>

record Response =
  ok :: bool
  status :: nat
  json :: "error_object + json_body"

text \<open>The numbers the cursor \<open>lastTimestamp\<close> can hold: an integer, or the
  \<open>-Infinity\<close> that \<open>Math.max\<close> returns for no arguments.\<close>

datatype number = Num int | NegInfinity

fun number_max :: "number \<Rightarrow> number \<Rightarrow> number" where
  "number_max NegInfinity y = y"
| "number_max x NegInfinity = x"
| "number_max (Num a) (Num b) = Num (max a b)"

definition Math_max :: "int list \<Rightarrow> number" where
  "Math_max xs = foldl number_max NegInfinity (map Num xs)"

text \<open>
  The network: what the \<open>n\<close>-th request of a run (counted from 0), posted to a URL with
  the query variable \<open>lastTimestamp\<close>, comes back with. \<open>fetch\<close> rejects with an
  error object or resolves to a response. The query text and the headers are constants
  of the source and are left out of the request.
\<close>

type_synonym network = "nat \<Rightarrow> jsstring \<Rightarrow> number \<Rightarrow> error_object + Response"

record http_request =
  request_url :: jsstring
  request_lastTimestamp :: number

datatype log_entry =
    ConsoleError jsstring
  | ConsoleLog jsstring "jsstring list"

text \<open>What a run leaves outside its result: the lines written to the console and the
  requests sent.\<close>

record world =
  console :: "log_entry list"
  requests :: "http_request list"

definition console_error :: "jsstring \<Rightarrow> world \<Rightarrow> world" where
  "console_error line w = w\<lparr>console := console w @ [ConsoleError line]\<rparr>"

definition console_log :: "jsstring \<Rightarrow> jsstring list \<Rightarrow> world \<Rightarrow> world" where
  "console_log label items w = w\<lparr>console := console w @ [ConsoleLog label items]\<rparr>"

section \<open>The paginated fetcher\<close>

definition fetchData ::
  "network \<Rightarrow> jsstring \<Rightarrow> number \<Rightarrow> world \<Rightarrow> (error_object + Silo list) \<times> world" where
  "fetchData fetch subgraphUrl lastTimestamp w =
     (let w1 = w\<lparr>requests := requests w @
                  [\<lparr>request_url = subgraphUrl, request_lastTimestamp = lastTimestamp\<rparr>]\<rparr>
      in case fetch (length (requests w)) subgraphUrl lastTimestamp of
           Inl rejection \<Rightarrow> (Inl rejection, w1)
         | Inr response \<Rightarrow>
             if \<not> ok response then
               (Inl (new_Error (js ''HTTP error: '' @ number_to_string (int (status response)))), w1)
             else
               (case json response of
                  Inl rejection \<Rightarrow> (Inl rejection, w1)
                | Inr JsonNull \<Rightarrow>
                    (Inl (ErrorObject (js ''TypeError'')
                            (js ''Cannot read properties of null (reading 'errors')'')), w1)
                | Inr (JsonObject result) \<Rightarrow>
                    (case errors result of
                       Some es \<Rightarrow>
                         (Inl (new_Error (js ''GraphQL errors occurred: see logs for details.'')),
                          foldl (\<lambda>w' error. console_error (js ''GraphQL error: '' @ message error) w')
                            w1 es)
                     | None \<Rightarrow>
                         (case data result of
                            None \<Rightarrow> (Inl (new_Error (js ''No silos data found.'')), w1)
                          | Some d \<Rightarrow>
                              (case data_silos d of
                                 None \<Rightarrow> (Inl (new_Error (js ''No silos data found.'')), w1)
                               | Some silos \<Rightarrow> (Inr silos, w1))))))"

section \<open>The record transformer\<close>

text \<open>An output tag is the object literal of the source: its property names and values,
  in the order written.\<close>

type_synonym ContractTag = "(jsstring \<times> jsstring) list"

text \<open>The body of the \<open>forEach\<close> callback, on the two arrays it pushes to.\<close>

definition sort_silo :: "Silo list \<times> jsstring list \<Rightarrow> Silo \<Rightarrow> Silo list \<times> jsstring list" where
  "sort_silo acc silo =
     (let validSilos = fst acc; rejectedNames = snd acc;
          nameInvalid = containsInvalidValue (name silo)
      in if nameInvalid then
           (validSilos,
            rejectedNames @
              [js ''Silo: '' @ id' silo @ js '' rejected due to invalid name - Name: '' @ name silo])
         else (validSilos @ [silo], rejectedNames))"

text \<open>The callback of \<open>validSilos.map\<close>.\<close>

definition silo_to_tag :: "jsstring \<Rightarrow> Silo \<Rightarrow> ContractTag" where
  "silo_to_tag chainId silo =
     (let maxNameLength = 45;
          truncatedNameText = truncateString (name silo) maxNameLength
      in [(js ''Contract Address'', js ''eip155:'' @ chainId @ js '':'' @ id' silo),
          (js ''Public Name Tag'', truncatedNameText @ js '' Silo''),
          (js ''Project Name'', js ''Silo v1''),
          (js ''UI/Website Link'', js ''https://app.silo.finance/''),
          (js ''Public Note'', js ''Silo v1's official '' @ name silo @ js '' Silo contract.'')])"

definition transformSilosToTags ::
  "jsstring \<Rightarrow> Silo list \<Rightarrow> world \<Rightarrow> ContractTag list \<times> world" where
  "transformSilosToTags chainId silos w =
     (let sorted = foldl sort_silo ([], []) silos;
          validSilos = fst sorted;
          rejectedNames = snd sorted;
          w' = (if length rejectedNames > 0
                then console_log (js ''Rejected silos:'') rejectedNames w
                else w)
      in (map (silo_to_tag chainId) validSilos, w'))"

section \<open>The orchestrator\<close>

text \<open>The \<open>catch\<close> block of \<open>returnTags\<close>: what it logs and what it throws.\<close>

definition catch_block :: "js_value \<Rightarrow> world \<Rightarrow> error_object \<times> world" where
  "catch_block error w =
     (if isError error then
        (new_Error (js ''Failed fetching data: '' @ js_ToString error),
         console_error (js ''An error occurred: '' @ js_ToString (js_get_message error)) w)
      else
        (new_Error (js ''An unknown error occurred during fetch operation.''),
         console_error (js ''An unknown error occurred.'') w))"

text \<open>
  The \<open>while\<close> loop of \<open>returnTags\<close>, entered with \<open>isMore\<close> true. What the
  \<open>try\<close> block can throw is what \<open>fetchData\<close> throws, an \<open>Error\<close> object, which
  the \<open>catch\<close> block receives as a value of unknown type. The network can serve full
  pages for ever, so the loop need not end: the result is \<open>None\<close> then.
\<close>

partial_function (option) returnTags_loop ::
  "network \<Rightarrow> jsstring \<Rightarrow> jsstring \<Rightarrow> ContractTag list \<Rightarrow> number \<Rightarrow> world \<Rightarrow>
     ((error_object + ContractTag list) \<times> world) option" where
  "returnTags_loop fetch chainId url allTags lastTimestamp w =
     (case fetchData fetch url lastTimestamp w of
        (Inl error, w1) \<Rightarrow>
          (case catch_block (JError error) w1 of (thrown, w2) \<Rightarrow> Some (Inl thrown, w2))
      | (Inr silos, w1) \<Rightarrow>
          (case transformSilosToTags chainId silos w1 of
             (tags, w2) \<Rightarrow>
               if length silos = 1000 then
                 returnTags_loop fetch chainId url (allTags @ tags)
                   (Math_max (map createdTimestamp silos)) w2
               else Some (Inr (allTags @ tags), w2)))"

definition returnTags ::
  "network \<Rightarrow> jsstring \<Rightarrow> jsstring \<Rightarrow> world \<Rightarrow>
     ((error_object + ContractTag list) \<times> world) option" where
  "returnTags fetch chainId apiKey w =
     (case prepareUrl chainId apiKey of
        Inl thrown \<Rightarrow> Some (Inl thrown, w)
      | Inr url \<Rightarrow> returnTags_loop fetch chainId url [] (Num 0) w)"

section \<open>Auxiliary notions for the proofs\<close>

text \<open>The code units an encoded URI component is made of.\<close>

definition uri_safe :: "code_unit \<Rightarrow> bool" where
  "uri_safe c = (uriUnreserved c \<or> c = cu CHR ''%'')"

text \<open>A successful response that carries a page of records.\<close>

definition success_response :: "Silo list \<Rightarrow> Response" where
  "success_response page =
     \<lparr>ok = True, status = 200,
      json = Inr (JsonObject \<lparr>data = Some \<lparr>data_silos = Some page\<rparr>, errors = None\<rparr>)\<rparr>"

text \<open>
  A network that serves given pages: the \<open>n\<close>-th request, sent with the cursor, is
  answered with the first page, and the requests after it, each sent with the largest
  creation timestamp of the page before, are answered with the pages that follow.
\<close>

fun serves :: "network \<Rightarrow> jsstring \<Rightarrow> nat \<Rightarrow> number \<Rightarrow> Silo list list \<Rightarrow> bool" where
  "serves fetch url n cursor [] = True"
| "serves fetch url n cursor (page # pages) =
     (fetch n url cursor = Inr (success_response page) \<and>
      serves fetch url (Suc n) (Num (Max (set (map createdTimestamp page)))) pages)"

text \<open>The cursors of the requests that fetch the given pages, from a first cursor on.\<close>

fun cursors :: "number \<Rightarrow> Silo list list \<Rightarrow> number list" where
  "cursors cursor [] = []"
| "cursors cursor (page # pages) =
     cursor # cursors (Num (Max (set (map createdTimestamp page)))) pages"


section \<open>Facts about strings and the encoder\<close>

text \<open>The keys of the table, and what \<open>Number\<close> makes of the inherited property names.\<close>

lemma supported_keys: "set (map fst SUBGRAPH_URLS) = {js ''1'', js ''10'', js ''8453'', js ''42161''}"
  by (simp add: SUBGRAPH_URLS_def)

lemma proto_all_NaN: "list_all isNaN_Number Object_prototype_keys"
  by (simp add: Object_prototype_keys_def isNaN_Number_def is_StringNumericLiteral_def trim_def
      is_whitespace_def is_StrDecimalLiteral_def is_sign_def is_StrUnsignedDecimalLiteral_def
      is_digit_def is_NonDecimalIntegerLiteral_def js_def cu_def)

text \<open>\<open>encodeURIComponent\<close> succeeds exactly on the well-formed strings.\<close>

lemma unreserved_not_surrogate:
  "uriUnreserved c \<Longrightarrow> \<not> is_leading_surrogate c \<and> \<not> is_trailing_surrogate c"
  by (auto simp: uriUnreserved_def is_leading_surrogate_def is_trailing_surrogate_def
      word_le_nat_alt)

lemma leading_not_trailing: "is_leading_surrogate c \<Longrightarrow> \<not> is_trailing_surrogate c"
  by (simp add: is_leading_surrogate_def is_trailing_surrogate_def word_le_nat_alt)

lemma encodeURIComponent_wellformed:
  "isWellFormed s \<Longrightarrow> \<exists>r. encodeURIComponent s = Inr r"
proof (induction s rule: encodeURIComponent.induct)
  case 1
  show ?case by simp
next
  case (2 c cs)
  show ?case
  proof (cases "uriUnreserved c")
    case True
    with 2 unreserved_not_surrogate[OF True] show ?thesis by auto
  next
    case False
    show ?thesis
    proof (cases "is_leading_surrogate c")
      case lead: True
      with 2(4) obtain d ds where cs: "cs = d # ds" and d: "is_trailing_surrogate d" and wf: "isWellFormed ds"
        by (auto split: list.splits)
      from lead have nt: "\<not> is_trailing_surrogate c" by (rule leading_not_trailing)
      from 2(2)[OF False nt lead cs d wf] show ?thesis
        using False nt lead cs d by auto
    next
      case nolead: False
      with 2(4) have nt: "\<not> is_trailing_surrogate c" and wf: "isWellFormed cs" by auto
      from 2(3)[OF False nt nolead wf] show ?thesis
        using False nt nolead by auto
    qed
  qed
qed

lemma encodeURIComponent_malformed:
  "\<not> isWellFormed s \<Longrightarrow> encodeURIComponent s = Inl URIError_malformed"
proof (induction s rule: encodeURIComponent.induct)
  case 1
  then show ?case by simp
next
  case (2 c cs)
  show ?case
  proof (cases "uriUnreserved c")
    case True
    with 2 unreserved_not_surrogate[OF True] show ?thesis by auto
  next
    case False
    show ?thesis
    proof (cases "is_trailing_surrogate c")
      case True
      with False show ?thesis by simp
    next
      case nt: False
      show ?thesis
      proof (cases "is_leading_surrogate c")
        case lead: True
        show ?thesis
        proof (cases cs)
          case Nil
          with False nt lead show ?thesis by simp
        next
          case (Cons d ds)
          show ?thesis
          proof (cases "is_trailing_surrogate d")
            case True
            with 2(4) lead Cons have "\<not> isWellFormed ds" by simp
            from 2(2)[OF False nt lead Cons True this] show ?thesis
              using False nt lead Cons True by simp
          next
            case False
            with \<open>\<not> uriUnreserved c\<close> nt lead Cons show ?thesis by simp
          qed
        qed
      next
        case nolead: False
        with 2(4) nt have "\<not> isWellFormed cs" by simp
        from 2(3)[OF False nt nolead this] show ?thesis
          using False nt nolead by simp
      qed
    qed
  qed
qed

text \<open>An encoded component holds unreserved characters and percent signs only: no dollar
  sign, which \<open>replace\<close> would read as a pattern, and no bracket.\<close>

lemma hex_char_safe: "d < 16 \<Longrightarrow> uri_safe (hex_char d)"
proof -
  assume "d < 16"
  then have "d = 0 \<or> d = 1 \<or> d = 2 \<or> d = 3 \<or> d = 4 \<or> d = 5 \<or> d = 6 \<or> d = 7 \<or> d = 8 \<or>
    d = 9 \<or> d = 10 \<or> d = 11 \<or> d = 12 \<or> d = 13 \<or> d = 14 \<or> d = 15" by arith
  then show ?thesis
    by (auto simp: hex_char_def uri_safe_def uriUnreserved_def)
qed

lemma percent_octet_safe: "b < 256 \<Longrightarrow> \<forall>c\<in>set (percent_octet b). uri_safe c"
proof -
  assume b: "b < 256"
  then have "b div 16 < 16" and "b mod 16 < 16" by simp_all
  then show ?thesis
    by (simp add: percent_octet_def hex_char_safe) (simp add: uri_safe_def)
qed

lemma utf8_octets_bound: "cp < 0x110000 \<Longrightarrow> \<forall>b\<in>set (utf8_octets cp). b < 256"
  by (auto simp: utf8_octets_def)

lemma percent_encode_safe: "cp < 0x110000 \<Longrightarrow> \<forall>c\<in>set (percent_encode cp). uri_safe c"
  using utf8_octets_bound[of cp] percent_octet_safe
  by (auto simp: percent_encode_def)

lemma unat_code_unit_bound: "unat (c :: code_unit) < 0x110000"
proof -
  have "unat c < 2 ^ 16" using unsigned_less[of c, where ?'a = nat] by simp
  then show ?thesis by simp
qed

lemma surrogate_pair_bound:
  "is_leading_surrogate c \<Longrightarrow> is_trailing_surrogate d \<Longrightarrow>
   surrogate_pair_to_code_point c d < 0x110000"
proof -
  assume "is_leading_surrogate c" and "is_trailing_surrogate d"
  then have a: "unat c - 55296 \<le> 1023" and b: "unat d - 56320 \<le> 1023"
    unfolding is_leading_surrogate_def is_trailing_surrogate_def word_le_nat_alt
    by (simp_all, arith+)
  from a have "(unat c - 55296) * 1024 \<le> 1023 * 1024" by (rule mult_le_mono1)
  with b show ?thesis by (simp add: surrogate_pair_to_code_point_def)
qed

lemma encodeURIComponent_safe:
  "encodeURIComponent s = Inr r \<Longrightarrow> \<forall>c\<in>set r. uri_safe c"
proof (induction s arbitrary: r rule: encodeURIComponent.induct)
  case 1
  then show ?case by simp
next
  case (2 c cs)
  show ?case
  proof (cases "uriUnreserved c")
    case True
    with 2(4) obtain r' where r': "encodeURIComponent cs = Inr r'" and r: "r = c # r'"
      by (auto split: sum.splits)
    from 2(1)[OF True r'] True r show ?thesis by (simp add: uri_safe_def)
  next
    case False
    show ?thesis
    proof (cases "is_leading_surrogate c")
      case lead: True
      then have nt: "\<not> is_trailing_surrogate c" by (rule leading_not_trailing)
      from 2(4) False nt lead obtain d ds r' where cs: "cs = d # ds"
        and d: "is_trailing_surrogate d" and r': "encodeURIComponent ds = Inr r'"
        and r: "r = percent_encode (surrogate_pair_to_code_point c d) @ r'"
        by (auto split: list.splits if_splits sum.splits)
      from 2(2)[OF False nt lead cs d r'] percent_encode_safe[OF surrogate_pair_bound[OF lead d]] r
      show ?thesis by auto
    next
      case nolead: False
      from 2(4) False nolead have nt: "\<not> is_trailing_surrogate c"
        by (auto split: if_splits)
      from 2(4) False nt nolead obtain r' where r': "encodeURIComponent cs = Inr r'"
        and r: "r = percent_encode (unat c) @ r'"
        by (auto split: sum.splits)
      from 2(3)[OF False nt nolead r'] percent_encode_safe[OF unat_code_unit_bound[of c]] r
      show ?thesis by auto
    qed
  qed
qed

lemma uri_safe_not_special: "uri_safe c \<Longrightarrow> c \<noteq> cu CHR ''$'' \<and> c \<noteq> cu CHR ''[''"
  by (auto simp: uri_safe_def uriUnreserved_def cu_def)

lemma GetSubstitution_plain:
  "cu CHR ''$'' \<notin> set r \<Longrightarrow> GetSubstitution m p f r = r"
  by (induction m p f r rule: GetSubstitution.induct) auto

text \<open>Replacing the placeholder in a template.\<close>

lemma indexOf_first_char:
  "c \<notin> set pre \<Longrightarrow> indexOf (c # pat) (pre @ (c # pat) @ post) = Some (length pre)"
  by (induction pre) (auto simp: prefix_Cons)

lemma replace_once:
  assumes "c \<notin> set pre" and "cu CHR ''$'' \<notin> set r"
  shows "replace (pre @ (c # pat) @ post) (c # pat) r = pre @ r @ post"
  using indexOf_first_char[OF assms(1), of pat post] GetSubstitution_plain[OF assms(2)]
  by (simp add: replace_def)

lemma supported_numeric:
  "chainId \<in> {js ''1'', js ''10'', js ''8453'', js ''42161''} \<Longrightarrow> \<not> isNaN_Number chainId"
  by (auto simp: isNaN_Number_def is_StringNumericLiteral_def trim_def
      is_whitespace_def is_StrDecimalLiteral_def is_sign_def is_StrUnsignedDecimalLiteral_def
      is_digit_def js_def cu_def)

lemma supported_template:
  assumes "chainId \<in> {js ''1'', js ''10'', js ''8453'', js ''42161''}"
  shows "\<exists>urls post. map_of SUBGRAPH_URLS chainId = Some urls \<and>
           decentralized urls = js ''https://gateway.thegraph.com/api/'' @ js ''[api-key]'' @ post \<and>
           cu CHR ''['' \<notin> set post"
proof -
  from assms consider "chainId = js ''1''" | "chainId = js ''10''" | "chainId = js ''8453''"
    | "chainId = js ''42161''" by auto
  then show ?thesis
  proof cases
    case 1
    have "map_of SUBGRAPH_URLS (js ''1'') = Some \<lparr>decentralized =
         js ''https://gateway.thegraph.com/api/[api-key]/subgraphs/id/GTEyHhRmhRRJkQfrDWsapcZ8sBKAka4GFej6gn3BpJNq''\<rparr>"
      by (simp add: SUBGRAPH_URLS_def)
    moreover have "js ''https://gateway.thegraph.com/api/[api-key]/subgraphs/id/GTEyHhRmhRRJkQfrDWsapcZ8sBKAka4GFej6gn3BpJNq''
      = js ''https://gateway.thegraph.com/api/'' @ js ''[api-key]'' @ js ''/subgraphs/id/GTEyHhRmhRRJkQfrDWsapcZ8sBKAka4GFej6gn3BpJNq''"
      by (simp add: js_def)
    moreover have "cu CHR ''['' \<notin> set (js ''/subgraphs/id/GTEyHhRmhRRJkQfrDWsapcZ8sBKAka4GFej6gn3BpJNq'')"
      by (simp add: js_def cu_def)
    ultimately show ?thesis using 1 by auto
  next
    case 2
    have "map_of SUBGRAPH_URLS (js ''10'') = Some \<lparr>decentralized =
         js ''https://gateway.thegraph.com/api/[api-key]/subgraphs/id/HVhUwbDrY5uGyz5u3bvKQVfmagVet3Uwy7jWjFrvT6s6''\<rparr>"
      by (simp add: SUBGRAPH_URLS_def js_def cu_def)
    moreover have "js ''https://gateway.thegraph.com/api/[api-key]/subgraphs/id/HVhUwbDrY5uGyz5u3bvKQVfmagVet3Uwy7jWjFrvT6s6''
      = js ''https://gateway.thegraph.com/api/'' @ js ''[api-key]'' @ js ''/subgraphs/id/HVhUwbDrY5uGyz5u3bvKQVfmagVet3Uwy7jWjFrvT6s6''"
      by (simp add: js_def)
    moreover have "cu CHR ''['' \<notin> set (js ''/subgraphs/id/HVhUwbDrY5uGyz5u3bvKQVfmagVet3Uwy7jWjFrvT6s6'')"
      by (simp add: js_def cu_def)
    ultimately show ?thesis using 2 by auto
  next
    case 3
    have "map_of SUBGRAPH_URLS (js ''8453'') = Some \<lparr>decentralized =
         js ''https://gateway.thegraph.com/api/[api-key]/subgraphs/id/HzQEXpsJuq7XQa4zXEJU38aUnG7mgZ6gA74HauHyYZzQ''\<rparr>"
      by (simp add: SUBGRAPH_URLS_def js_def cu_def)
    moreover have "js ''https://gateway.thegraph.com/api/[api-key]/subgraphs/id/HzQEXpsJuq7XQa4zXEJU38aUnG7mgZ6gA74HauHyYZzQ''
      = js ''https://gateway.thegraph.com/api/'' @ js ''[api-key]'' @ js ''/subgraphs/id/HzQEXpsJuq7XQa4zXEJU38aUnG7mgZ6gA74HauHyYZzQ''"
      by (simp add: js_def)
    moreover have "cu CHR ''['' \<notin> set (js ''/subgraphs/id/HzQEXpsJuq7XQa4zXEJU38aUnG7mgZ6gA74HauHyYZzQ'')"
      by (simp add: js_def cu_def)
    ultimately show ?thesis using 3 by auto
  next
    case 4
    have "map_of SUBGRAPH_URLS (js ''42161'') = Some \<lparr>decentralized =
         js ''https://gateway.thegraph.com/api/[api-key]/subgraphs/id/2ufoztRpybsgogPVW6j9NTn1JmBWFYPKbP7pAabizADU''\<rparr>"
      by (simp add: SUBGRAPH_URLS_def js_def cu_def)
    moreover have "js ''https://gateway.thegraph.com/api/[api-key]/subgraphs/id/2ufoztRpybsgogPVW6j9NTn1JmBWFYPKbP7pAabizADU''
      = js ''https://gateway.thegraph.com/api/'' @ js ''[api-key]'' @ js ''/subgraphs/id/2ufoztRpybsgogPVW6j9NTn1JmBWFYPKbP7pAabizADU''"
      by (simp add: js_def)
    moreover have "cu CHR ''['' \<notin> set (js ''/subgraphs/id/2ufoztRpybsgogPVW6j9NTn1JmBWFYPKbP7pAabizADU'')"
      by (simp add: js_def cu_def)
    ultimately show ?thesis using 4 by auto
  qed
qed

lemma api_prefix_no_bracket: "cu CHR ''['' \<notin> set (js ''https://gateway.thegraph.com/api/'')"
  by (simp add: js_def cu_def)

lemma placeholder_Cons: "js ''[api-key]'' = cu CHR ''['' # js ''api-key]''"
  by (simp add: js_def)

lemma not_sublist_placeholder:
  "cu CHR ''['' \<notin> set s \<Longrightarrow> \<not> sublist (js ''[api-key]'') s"
  using set_mono_sublist[of "js ''[api-key]''" s] by (auto simp: placeholder_Cons)

section \<open>Facts about the transformer\<close>

lemma dropWhile_neq_nonempty: "dropWhile (\<lambda>x. x \<noteq> g) r \<noteq> [] \<longleftrightarrow> g \<in> set r"
  by (induction r) auto

lemma match_tag_here_iff:
  "match_tag_here s \<longleftrightarrow> (\<exists>mid post. s = cu CHR ''<'' # mid @ cu CHR ''>'' # post)"
proof (cases s)
  case Nil
  then show ?thesis by (simp add: match_tag_here_def)
next
  case (Cons c r)
  show ?thesis
  proof
    assume "match_tag_here s"
    with Cons have c: "c = cu CHR ''<''" and "cu CHR ''>'' \<in> set r"
      by (simp_all add: match_tag_here_def dropWhile_neq_nonempty)
    then obtain mid post where "r = mid @ cu CHR ''>'' # post"
      by (meson split_list)
    with c Cons show "\<exists>mid post. s = cu CHR ''<'' # mid @ cu CHR ''>'' # post" by blast
  next
    assume "\<exists>mid post. s = cu CHR ''<'' # mid @ cu CHR ''>'' # post"
    then show "match_tag_here s"
      by (auto simp: match_tag_here_def dropWhile_neq_nonempty)
  qed
qed

lemma regex_test_tag_iff:
  "regex_test_tag s \<longleftrightarrow> (\<exists>pre mid post. s = pre @ cu CHR ''<'' # mid @ cu CHR ''>'' # post)"
proof (induction s)
  case Nil
  show ?case by simp
next
  case (Cons c cs)
  show ?case
  proof
    assume "regex_test_tag (c # cs)"
    then consider "match_tag_here (c # cs)" | "regex_test_tag cs" by auto
    then show "\<exists>pre mid post. c # cs = pre @ cu CHR ''<'' # mid @ cu CHR ''>'' # post"
    proof cases
      case 1
      then obtain mid post where "c # cs = [] @ cu CHR ''<'' # mid @ cu CHR ''>'' # post"
        by (auto simp: match_tag_here_iff)
      then show ?thesis by blast
    next
      case 2
      with Cons.IH obtain pre mid post where "cs = pre @ cu CHR ''<'' # mid @ cu CHR ''>'' # post"
        by blast
      then have "c # cs = (c # pre) @ cu CHR ''<'' # mid @ cu CHR ''>'' # post" by simp
      then show ?thesis by blast
    qed
  next
    assume "\<exists>pre mid post. c # cs = pre @ cu CHR ''<'' # mid @ cu CHR ''>'' # post"
    then obtain pre mid post where eq: "c # cs = pre @ cu CHR ''<'' # mid @ cu CHR ''>'' # post"
      by blast
    show "regex_test_tag (c # cs)"
    proof (cases pre)
      case Nil
      with eq have "match_tag_here (c # cs)" by (auto simp: match_tag_here_iff)
      then show ?thesis by simp
    next
      case (Cons a pre')
      with eq have "cs = pre' @ cu CHR ''<'' # mid @ cu CHR ''>'' # post" by simp
      with Cons.IH have "regex_test_tag cs" by blast
      then show ?thesis by simp
    qed
  qed
qed

lemma containsInvalidValue_iff:
  "containsInvalidValue s \<longleftrightarrow>
     trim s = [] \<or> (\<exists>pre mid post. s = pre @ cu CHR ''<'' # mid @ cu CHR ''>'' # post)"
  by (simp add: containsInvalidValue_def regex_test_tag_iff)

lemma foldl_sort_silo:
  "foldl sort_silo (v, r) silos =
     (v @ filter (\<lambda>s. \<not> containsInvalidValue (name s)) silos,
      r @ map (\<lambda>s. js ''Silo: '' @ id' s @ js '' rejected due to invalid name - Name: '' @ name s)
            (filter (\<lambda>s. containsInvalidValue (name s)) silos))"
  by (induction silos arbitrary: v r) (simp_all add: sort_silo_def)

lemma transform_tags:
  "fst (transformSilosToTags chainId silos w) =
     map (silo_to_tag chainId) (filter (\<lambda>s. \<not> containsInvalidValue (name s)) silos)"
  by (simp add: transformSilosToTags_def foldl_sort_silo Let_def)

lemma transform_world:
  "snd (transformSilosToTags chainId silos w) =
     (if filter (\<lambda>s. containsInvalidValue (name s)) silos = [] then w
      else console_log (js ''Rejected silos:'')
             (map (\<lambda>s. js ''Silo: '' @ id' s @ js '' rejected due to invalid name - Name: '' @ name s)
                (filter (\<lambda>s. containsInvalidValue (name s)) silos)) w)"
  by (simp add: transformSilosToTags_def foldl_sort_silo Let_def)

lemma truncateString_45:
  "truncateString s 45 = (if 45 < length s then take 42 s @ js ''...'' else s)"
  by (simp add: truncateString_def substring_def Let_def min_def max_def)

lemma silo_to_tag_explicit:
  "silo_to_tag chainId s =
     [(js ''Contract Address'', js ''eip155:'' @ chainId @ js '':'' @ id' s),
      (js ''Public Name Tag'',
         (if 45 < length (name s) then take 42 (name s) @ js ''...'' else name s) @ js '' Silo''),
      (js ''Project Name'', js ''Silo v1''),
      (js ''UI/Website Link'', js ''https://app.silo.finance/''),
      (js ''Public Note'', js ''Silo v1's official '' @ name s @ js '' Silo contract.'')]"
  by (simp add: silo_to_tag_def Let_def truncateString_45)

lemma unat_cu: "unat (cu c) = of_char c"
proof -
  have "(of_char c :: nat) < 256" by simp
  then have "(of_char c :: nat) < 65536" by (rule less_trans) simp
  then show ?thesis by (simp add: cu_def unat_of_nat take_bit_nat_eq_self)
qed

lemma cu_eq_iff: "cu a = cu b \<longleftrightarrow> a = b"
proof
  assume "cu a = cu b"
  then have "unat (cu a) = unat (cu b)" by simp
  then show "a = b" by (simp add: unat_cu)
qed simp

lemma js_eq_iff: "js a = js b \<longleftrightarrow> a = b"
proof -
  have "inj cu" by (simp add: inj_def cu_eq_iff)
  then show ?thesis by (simp add: js_def)
qed

lemma public_name_of_tag:
  "map_of (silo_to_tag chainId s) (js ''Public Name Tag'') =
     Some ((if 45 < length (name s) then take 42 (name s) @ js ''...'' else name s) @ js '' Silo'')"
  by (simp add: silo_to_tag_explicit js_eq_iff)

lemma public_note_of_tag:
  "map_of (silo_to_tag chainId s) (js ''Public Note'') =
     Some (js ''Silo v1's official '' @ name s @ js '' Silo contract.'')"
  by (simp add: silo_to_tag_explicit js_eq_iff)

section \<open>Facts about the fetcher and the loop\<close>

lemma foldl_console_error:
  "foldl (\<lambda>w' e. console_error (f e) w') w es =
     w\<lparr>console := console w @ map (\<lambda>e. ConsoleError (f e)) es\<rparr>"
  by (induction es arbitrary: w) (simp_all add: console_error_def)

lemma decimal_500: "decimal 500 = js ''500''"
  by (simp add: decimal.simps[of 500] decimal.simps[of 50] decimal.simps[of 5] digit_char_def
      js_def cu_def)

lemma foldl_number_max:
  "foldl number_max (Num a) (map Num xs) = Num (Max (set (a # xs)))"
proof (induction xs arbitrary: a)
  case Nil
  show ?case by simp
next
  case (Cons x xs)
  have "Max (insert (max a x) (set xs)) = Max (insert a (insert x (set xs)))"
    by (cases "set xs = {}") (simp_all add: max.assoc)
  with Cons[of "max a x"] show ?case by simp
qed

lemma Math_max_Max: "xs \<noteq> [] \<Longrightarrow> Math_max xs = Num (Max (set xs))"
  by (cases xs) (simp_all add: Math_max_def foldl_number_max)

lemma fetchData_success:
  "fetch (length (requests w)) url c = Inr (success_response page) \<Longrightarrow>
   fetchData fetch url c w =
     (Inr page, w\<lparr>requests := requests w @ [\<lparr>request_url = url, request_lastTimestamp = c\<rparr>]\<rparr>)"
  by (simp add: fetchData_def success_response_def)

lemma transform_requests:
  "requests (snd (transformSilosToTags chainId silos w)) = requests w"
  by (simp add: transform_world console_log_def)

lemma loop_success_step:
  assumes "fetchData fetch url c w = (Inr silos, w1)"
  shows "returnTags_loop fetch chainId url acc c w =
     (if length silos = 1000
      then returnTags_loop fetch chainId url (acc @ fst (transformSilosToTags chainId silos w1))
             (Math_max (map createdTimestamp silos)) (snd (transformSilosToTags chainId silos w1))
      else Some (Inr (acc @ fst (transformSilosToTags chainId silos w1)),
                 snd (transformSilosToTags chainId silos w1)))"
  by (subst returnTags_loop.simps) (simp add: assms split: prod.splits)


lemma loop_pages:
  assumes "pages \<noteq> []"
    and "\<forall>p\<in>set (butlast pages). length p = 1000"
    and "length (last pages) \<noteq> 1000"
    and "serves fetch url (length (requests w)) c pages"
  shows "\<exists>w'. returnTags_loop fetch chainId url acc c w =
           Some (Inr (acc @ concat (map (\<lambda>p. map (silo_to_tag chainId)
                        (filter (\<lambda>s. \<not> containsInvalidValue (name s)) p)) pages)), w') \<and>
           requests w' = requests w @
             map (\<lambda>c. \<lparr>request_url = url, request_lastTimestamp = c\<rparr>) (cursors c pages)"
  using assms
proof (induction pages arbitrary: acc c w)
  case Nil
  then show ?case by simp
next
  case (Cons p ps)
  let ?w1 = "w\<lparr>requests := requests w @ [\<lparr>request_url = url, request_lastTimestamp = c\<rparr>]\<rparr>"
  let ?w2 = "snd (transformSilosToTags chainId p ?w1)"
  let ?tags = "map (silo_to_tag chainId) (filter (\<lambda>s. \<not> containsInvalidValue (name s)) p)"
  from Cons.prems(4) have fetch: "fetch (length (requests w)) url c = Inr (success_response p)"
    and rest: "serves fetch url (Suc (length (requests w))) (Num (Max (set (map createdTimestamp p)))) ps"
    by simp_all
  have fd: "fetchData fetch url c w = (Inr p, ?w1)"
    using fetch by (rule fetchData_success[where fetch = fetch and w = w])
  note step = loop_success_step[OF fd, of chainId acc]
  have req2: "requests ?w2 = requests w @ [\<lparr>request_url = url, request_lastTimestamp = c\<rparr>]"
    by (simp add: transform_requests)
  show ?case
  proof (cases ps)
    case Nil
    with Cons.prems(3) have "length p \<noteq> 1000" by simp
    with step Nil req2 show ?thesis by (simp add: transform_tags)
  next
    case (Cons q qs)
    with Cons.prems(2) have len: "length p = 1000" by simp
    then have "p \<noteq> []" by auto
    then have mx: "Math_max (map createdTimestamp p) = Num (Max (set (map createdTimestamp p)))"
      by (simp add: Math_max_Max)
    have ps1: "ps \<noteq> []" using Cons by simp
    have ps2: "\<forall>p\<in>set (butlast ps). length p = 1000"
      using Cons.prems(2) Cons by simp
    have ps3: "length (last ps) \<noteq> 1000" using Cons.prems(3) Cons by simp
    have ps4: "serves fetch url (length (requests ?w2)) (Num (Max (set (map createdTimestamp p)))) ps"
      using rest by (simp add: req2)
    from Cons.IH[OF ps1 ps2 ps3 ps4, of "acc @ ?tags"] obtain w' where
      "returnTags_loop fetch chainId url (acc @ ?tags) (Num (Max (set (map createdTimestamp p)))) ?w2 =
         Some (Inr ((acc @ ?tags) @ concat (map (\<lambda>p. map (silo_to_tag chainId)
                        (filter (\<lambda>s. \<not> containsInvalidValue (name s)) p)) ps)), w')"
      and "requests w' = requests ?w2 @
             map (\<lambda>c. \<lparr>request_url = url, request_lastTimestamp = c\<rparr>)
               (cursors (Num (Max (set (map createdTimestamp p)))) ps)"
      by blast
    with step len mx req2 show ?thesis by (simp add: transform_tags)
  qed
qed






lemma message_not_inherited: "js ''message'' \<notin> set Object_prototype_keys"
  by (simp add: Object_prototype_keys_def js_eq_iff)




lemma prepareUrl_1_key:
  "prepareUrl (js ''1'') (js ''key'') =
     Inr (js ''https://gateway.thegraph.com/api/key/subgraphs/id/GTEyHhRmhRRJkQfrDWsapcZ8sBKAka4GFej6gn3BpJNq'')"
  by (simp add: prepareUrl_def lookup_SUBGRAPH_URLS_def SUBGRAPH_URLS_def supported_numeric
      uriUnreserved_def replace_def prefix_Cons js_def cu_def)

section \<open>The URL resolver: unsupported chains\<close>

text \<open>
  Claim C1. For every chain identifier that is not one of \<open>"1"\<close>, \<open>"10"\<close>,
  \<open>"8453"\<close>, \<open>"42161"\<close> (the empty string, non-numeric strings and the names of
  properties inherited from \<open>Object.prototype\<close> included) and every credential,
  \<open>prepareUrl\<close> returns no URL: it throws an \<open>Error\<close> whose message names the
  rejected identifier and then lists exactly the four supported identifiers, joined by
  \<open>", "\<close>.
\<close>

theorem prepareUrl_unsupported:
  assumes "chainId \<notin> {js ''1'', js ''10'', js ''8453'', js ''42161''}"
  shows "prepareUrl chainId apiKey =
           Inl (new_Error (js ''Unsupported or invalid Chain ID provided: '' @ chainId @
                  js ''. Only the following values are accepted: '' @
                  join (js '', '') [js ''1'', js ''10'', js ''8453'', js ''42161'']))"
proof -
  from assms have none: "map_of SUBGRAPH_URLS chainId = None"
    using supported_keys by (simp add: map_of_eq_None_iff)
  have keys: "Object_keys_SUBGRAPH_URLS = [js ''1'', js ''10'', js ''8453'', js ''42161'']"
    by (simp add: Object_keys_SUBGRAPH_URLS_def SUBGRAPH_URLS_def)
  show ?thesis
  proof (cases "chainId \<in> set Object_prototype_keys")
    case True
    with proto_all_NaN have "isNaN_Number chainId" by (simp add: list_all_iff)
    then show ?thesis by (simp add: prepareUrl_def keys)
  next
    case False
    with none have "lookup_SUBGRAPH_URLS chainId = Undefined"
      by (simp add: lookup_SUBGRAPH_URLS_def)
    then show ?thesis by (simp add: prepareUrl_def keys)
  qed
qed

theorem prepareUrl_unsupported_witness:
  "js ''2'' \<notin> {js ''1'', js ''10'', js ''8453'', js ''42161''} \<and>
   js ''toString'' \<notin> {js ''1'', js ''10'', js ''8453'', js ''42161''} \<and>
   [] \<notin> {js ''1'', js ''10'', js ''8453'', js ''42161''} \<and>
   prepareUrl (js ''2'') (js ''key'') =
     Inl (new_Error (js ''Unsupported or invalid Chain ID provided: 2. Only the following values are accepted: 1, 10, 8453, 42161'')) \<and>
   prepareUrl (js ''toString'') (js ''key'') =
     Inl (new_Error (js ''Unsupported or invalid Chain ID provided: toString. Only the following values are accepted: 1, 10, 8453, 42161'')) \<and>
   prepareUrl [] (js ''key'') =
     Inl (new_Error (js ''Unsupported or invalid Chain ID provided: . Only the following values are accepted: 1, 10, 8453, 42161''))"
  using prepareUrl_unsupported[of "js ''2''" "js ''key''"]
    prepareUrl_unsupported[of "js ''toString''" "js ''key''"]
    prepareUrl_unsupported[of "[]" "js ''key''"]
  by (simp add: js_def cu_def)

section \<open>The URL resolver: supported chains\<close>

text \<open>
  Claim C2, as the code has it. For each of the four supported chain identifiers and
  every credential that is well-formed UTF-16 (no unpaired surrogate), the chain's
  template is \<open>pre @ "[api-key]" @ post\<close> with no further placeholder in \<open>pre\<close> or
  \<open>post\<close>, \<open>encodeURIComponent\<close> succeeds on the credential, and \<open>prepareUrl\<close>
  returns \<open>pre\<close>, the encoded credential and \<open>post\<close>: the placeholder is replaced
  once, by the percent-encoded credential, and no placeholder is left. \<open>prepareUrl\<close>
  is a function of its two arguments only and touches neither the console nor the
  network.
\<close>

theorem prepareUrl_supported:
  assumes "chainId \<in> {js ''1'', js ''10'', js ''8453'', js ''42161''}"
    and "isWellFormed apiKey"
  shows "\<exists>urls pre post encoded.
           map_of SUBGRAPH_URLS chainId = Some urls \<and>
           decentralized urls = pre @ js ''[api-key]'' @ post \<and>
           \<not> sublist (js ''[api-key]'') pre \<and> \<not> sublist (js ''[api-key]'') post \<and>
           encodeURIComponent apiKey = Inr encoded \<and>
           prepareUrl chainId apiKey = Inr (pre @ encoded @ post) \<and>
           \<not> sublist (js ''[api-key]'') (pre @ encoded @ post)"
proof -
  from supported_template[OF assms(1)] obtain urls post where
    urls: "map_of SUBGRAPH_URLS chainId = Some urls" and
    tpl: "decentralized urls = js ''https://gateway.thegraph.com/api/'' @ js ''[api-key]'' @ post" and
    post: "cu CHR ''['' \<notin> set post" by blast
  from encodeURIComponent_wellformed[OF assms(2)] obtain encoded where
    enc: "encodeURIComponent apiKey = Inr encoded" by blast
  from encodeURIComponent_safe[OF enc] uri_safe_not_special
  have safe: "cu CHR ''$'' \<notin> set encoded" "cu CHR ''['' \<notin> set encoded" by auto
  let ?pre = "js ''https://gateway.thegraph.com/api/''"
  have rep: "replace (decentralized urls) (js ''[api-key]'') encoded = ?pre @ encoded @ post"
    unfolding tpl placeholder_Cons
    by (rule replace_once[OF api_prefix_no_bracket safe(1)])
  have "lookup_SUBGRAPH_URLS chainId = Own urls"
    by (simp add: lookup_SUBGRAPH_URLS_def urls)
  with supported_numeric[OF assms(1)] enc rep
  have "prepareUrl chainId apiKey = Inr (?pre @ encoded @ post)"
    by (simp add: prepareUrl_def)
  moreover have "\<not> sublist (js ''[api-key]'') (?pre @ encoded @ post)"
    using api_prefix_no_bracket safe(2) post by (intro not_sublist_placeholder) simp
  ultimately show ?thesis
    using urls tpl enc not_sublist_placeholder[OF api_prefix_no_bracket]
      not_sublist_placeholder[OF post] by blast
qed

theorem prepareUrl_supported_witness:
  "js ''8453'' \<in> {js ''1'', js ''10'', js ''8453'', js ''42161''} \<and>
   isWellFormed (js ''my key/1'' @ [0xD83D, 0xDE00]) \<and>
   prepareUrl (js ''8453'') (js ''my key/1'' @ [0xD83D, 0xDE00]) =
     Inr (js ''https://gateway.thegraph.com/api/my%20key%2F1%F0%9F%98%80/subgraphs/id/HzQEXpsJuq7XQa4zXEJU38aUnG7mgZ6gA74HauHyYZzQ'')"
  using prepareUrl_supported[of "js ''8453''" "js ''my key/1'' @ [0xD83D, 0xDE00]"]
  by (simp add: prepareUrl_def lookup_SUBGRAPH_URLS_def SUBGRAPH_URLS_def supported_numeric
      uriUnreserved_def is_trailing_surrogate_def is_leading_surrogate_def
      percent_encode_def utf8_octets_def percent_octet_def hex_char_def
      surrogate_pair_to_code_point_def replace_def prefix_Cons js_def cu_def)

text \<open>
  For a credential with an unpaired surrogate (here the single code unit \<open>0xD800\<close>)
  \<open>encodeURIComponent\<close> throws a \<open>URIError\<close>, and so does \<open>prepareUrl\<close> on a
  supported chain: no URL is returned, so the claim does not hold for every credential
  string.
\<close>

theorem prepareUrl_lone_surrogate:
  "prepareUrl (js ''1'') [0xD800] = Inl (ErrorObject (js ''URIError'') (js ''URI malformed''))"
  by (simp add: prepareUrl_def lookup_SUBGRAPH_URLS_def SUBGRAPH_URLS_def supported_numeric
      uriUnreserved_def is_trailing_surrogate_def is_leading_surrogate_def URIError_malformed_def)

section \<open>The transformer: which records are kept\<close>

text \<open>
  Claim C3. For every chain identifier, page and world, the tags returned are those of
  the records, in order, whose name is neither empty after trimming white space nor
  contains a substring \<open><...>\<close> (a \<open><\<close> with a \<open>>\<close> somewhere after it): a
  record is left out exactly when its name is invalid in that sense. When a record was
  left out, one \<open>console.log\<close> line lists, for every such record in order, its
  identifier and its raw name; otherwise nothing is logged. A name of two spaces and
  \<open><b>Evil</b>\<close> are invalid, \<open>Good Silo\<close> is valid.
\<close>

theorem transform_excludes_invalid:
  "fst (transformSilosToTags chainId silos w) =
     map (silo_to_tag chainId)
       (filter (\<lambda>s. \<not> (trim (name s) = [] \<or>
                        (\<exists>pre mid post. name s = pre @ cu CHR ''<'' # mid @ cu CHR ''>'' # post)))
          silos) \<and>
   snd (transformSilosToTags chainId silos w) =
     (let rejected =
        filter (\<lambda>s. trim (name s) = [] \<or>
                     (\<exists>pre mid post. name s = pre @ cu CHR ''<'' # mid @ cu CHR ''>'' # post))
          silos
      in if rejected = [] then w
         else w\<lparr>console := console w @
                [ConsoleLog (js ''Rejected silos:'')
                   (map (\<lambda>s. js ''Silo: '' @ id' s @
                              js '' rejected due to invalid name - Name: '' @ name s)
                      rejected)]\<rparr>) \<and>
   containsInvalidValue (js ''  '') \<and>
   containsInvalidValue (js ''<b>Evil</b>'') \<and>
   \<not> containsInvalidValue (js ''Good Silo'')"
proof -
  have ex: "containsInvalidValue (js ''  '') \<and> containsInvalidValue (js ''<b>Evil</b>'') \<and>
      \<not> containsInvalidValue (js ''Good Silo'')"
    by (simp add: js_def cu_def containsInvalidValue_def trim_def is_whitespace_def
        match_tag_here_def)
  show ?thesis
    using ex
    by (simp add: transform_tags transform_world containsInvalidValue_iff[symmetric]
        console_log_def Let_def)
qed

theorem transform_excludes_invalid_witness:
  "transformSilosToTags (js ''1'')
     [\<lparr>id' = js ''0xa'', name = js ''  '', createdTimestamp = 1\<rparr>,
      \<lparr>id' = js ''0xb'', name = js ''<b>Evil</b>'', createdTimestamp = 2\<rparr>,
      \<lparr>id' = js ''0xc'', name = js ''Good Silo'', createdTimestamp = 3\<rparr>]
     \<lparr>console = [], requests = []\<rparr> =
   ([[(js ''Contract Address'', js ''eip155:1:0xc''),
      (js ''Public Name Tag'', js ''Good Silo Silo''),
      (js ''Project Name'', js ''Silo v1''),
      (js ''UI/Website Link'', js ''https://app.silo.finance/''),
      (js ''Public Note'', js ''Silo v1's official Good Silo Silo contract.'')]],
    \<lparr>console = [ConsoleLog (js ''Rejected silos:'')
        [js ''Silo: 0xa rejected due to invalid name - Name:   '',
         js ''Silo: 0xb rejected due to invalid name - Name: <b>Evil</b>'']],
     requests = []\<rparr>)"
proof -
  let ?silos = "[\<lparr>id' = js ''0xa'', name = js ''  '', createdTimestamp = 1\<rparr>,
      \<lparr>id' = js ''0xb'', name = js ''<b>Evil</b>'', createdTimestamp = 2\<rparr>,
      \<lparr>id' = js ''0xc'', name = js ''Good Silo'', createdTimestamp = 3\<rparr>]"
  have inv: "containsInvalidValue (js ''  '')" "containsInvalidValue (js ''<b>Evil</b>'')"
    "\<not> containsInvalidValue (js ''Good Silo'')"
    using transform_excludes_invalid[of "js ''1''" ?silos "\<lparr>console = [], requests = []\<rparr>"]
    by blast+
  show ?thesis
    by (simp add: prod_eq_iff transform_tags transform_world inv silo_to_tag_explicit
        console_log_def) (simp add: js_def)
qed

section \<open>The transformer: truncated names\<close>

text \<open>
  Claim C4. The public names of the output are, for each valid record in order, the
  name portion followed by \<open>" Silo"\<close>, where the name portion of a name longer than 45
  code units is its first 42 code units followed by \<open>"..."\<close>, 45 code units in all,
  and the name portion of a name of at most 45 code units is the name itself. This is
  what \<open>truncateString\<close> returns for the limit 45.
\<close>

theorem public_name_truncated:
  "map (\<lambda>tag. map_of tag (js ''Public Name Tag'')) (fst (transformSilosToTags chainId silos w)) =
     map (\<lambda>s. Some ((if 45 < length (name s) then take 42 (name s) @ js ''...'' else name s) @
                     js '' Silo''))
       (filter (\<lambda>s. \<not> containsInvalidValue (name s)) silos) \<and>
   (45 < length text' \<longrightarrow> length (take 42 text' @ js ''...'') = 45) \<and>
   (45 < length text' \<longrightarrow> truncateString text' 45 = take 42 text' @ js ''...'') \<and>
   (length text' \<le> 45 \<longrightarrow> truncateString text' 45 = text')"
  by (simp add: transform_tags public_name_of_tag truncateString_45 comp_def) (simp add: js_def)

theorem public_name_truncated_witness:
  "45 < length (js ''A very long display name for a silo, fifty chars..'') \<and>
   length (js ''Short name'') \<le> 45 \<and>
   map (\<lambda>tag. map_of tag (js ''Public Name Tag''))
     (fst (transformSilosToTags (js ''1'')
        [\<lparr>id' = js ''0xa'', name = js ''A very long display name for a silo, fifty chars..'',
          createdTimestamp = 1\<rparr>,
         \<lparr>id' = js ''0xb'', name = js ''Short name'', createdTimestamp = 2\<rparr>]
        \<lparr>console = [], requests = []\<rparr>)) =
     [Some (js ''A very long display name for a silo, fifty... Silo''),
      Some (js ''Short name Silo'')] \<and>
   length (js ''A very long display name for a silo, fifty...'') = 45 \<and>
   truncateString (js ''A very long display name for a silo, fifty chars..'') 45 =
     js ''A very long display name for a silo, fifty...'' \<and>
   truncateString (js ''Short name'') 45 = js ''Short name''"
proof -
  have valid: "\<not> containsInvalidValue (js ''A very long display name for a silo, fifty chars..'')"
    "\<not> containsInvalidValue (js ''Short name'')"
    by (simp_all add: js_def cu_def containsInvalidValue_def trim_def is_whitespace_def
        match_tag_here_def)
  show ?thesis
    using public_name_truncated[of "js ''1''"
        "[\<lparr>id' = js ''0xa'', name = js ''A very long display name for a silo, fifty chars..'',
          createdTimestamp = 1\<rparr>,
         \<lparr>id' = js ''0xb'', name = js ''Short name'', createdTimestamp = 2\<rparr>]"
        "\<lparr>console = [], requests = []\<rparr>"
        "js ''A very long display name for a silo, fifty chars..''"]
      public_name_truncated[of "js ''1''" "[]" "\<lparr>console = [], requests = []\<rparr>" "js ''Short name''"]
    by (simp add: valid) (simp add: js_def)
qed

section \<open>The transformer: the output schema\<close>

text \<open>
  Claim C5. Every tag of the output is the object with exactly the five properties
  \<open>Contract Address\<close>, \<open>Public Name Tag\<close>, \<open>Project Name\<close>,
  \<open>UI/Website Link\<close> and \<open>Public Note\<close>, in this order and with these names: the
  address is \<open>eip155:<chainId>:<id>\<close>, the public name is the truncated name followed
  by \<open>" Silo"\<close>, the project name is \<open>Silo v1\<close>, the link is
  \<open>https://app.silo.finance/\<close>, and the note is a sentence around the whole,
  untruncated name.
\<close>

theorem tag_schema:
  "fst (transformSilosToTags chainId silos w) =
     map (\<lambda>s. [(js ''Contract Address'', js ''eip155:'' @ chainId @ js '':'' @ id' s),
                (js ''Public Name Tag'',
                   (if 45 < length (name s) then take 42 (name s) @ js ''...'' else name s) @
                   js '' Silo''),
                (js ''Project Name'', js ''Silo v1''),
                (js ''UI/Website Link'', js ''https://app.silo.finance/''),
                (js ''Public Note'', js ''Silo v1's official '' @ name s @ js '' Silo contract.'')])
       (filter (\<lambda>s. \<not> containsInvalidValue (name s)) silos) \<and>
   (\<forall>tag \<in> set (fst (transformSilosToTags chainId silos w)).
      map fst tag =
        [js ''Contract Address'', js ''Public Name Tag'', js ''Project Name'',
         js ''UI/Website Link'', js ''Public Note''] \<and>
      distinct (map fst tag))"
  by (auto simp: transform_tags silo_to_tag_explicit js_eq_iff)

theorem tag_schema_witness:
  "fst (transformSilosToTags (js ''42161'')
     [\<lparr>id' = js ''0xc'', name = js ''Alpha'', createdTimestamp = 3\<rparr>,
      \<lparr>id' = js ''0xd'', name = [], createdTimestamp = 4\<rparr>]
     \<lparr>console = [], requests = []\<rparr>) =
   [[(js ''Contract Address'', js ''eip155:42161:0xc''),
     (js ''Public Name Tag'', js ''Alpha Silo''),
     (js ''Project Name'', js ''Silo v1''),
     (js ''UI/Website Link'', js ''https://app.silo.finance/''),
     (js ''Public Note'', js ''Silo v1's official Alpha Silo contract.'')]]"
proof -
  have valid: "\<not> containsInvalidValue (js ''Alpha'')" "containsInvalidValue []"
    by (simp_all add: js_def cu_def containsInvalidValue_def trim_def is_whitespace_def
        match_tag_here_def)
  show ?thesis
    using tag_schema[of "js ''42161''"
        "[\<lparr>id' = js ''0xc'', name = js ''Alpha'', createdTimestamp = 3\<rparr>,
          \<lparr>id' = js ''0xd'', name = [], createdTimestamp = 4\<rparr>]"
        "\<lparr>console = [], requests = []\<rparr>"]
    by (simp add: valid) (simp add: js_def)
qed

section \<open>The orchestrator: pagination\<close>

text \<open>
  Claim C6. When \<open>prepareUrl\<close> gives a URL, \<open>returnTags\<close> is the loop entered with
  no tags and the cursor 0. Whenever a page is fetched, the loop appends the tags of the
  transformed page to the accumulated ones; if the page has exactly 1000 records it goes
  on, with the largest creation timestamp of that page as the next cursor, and otherwise
  it returns the accumulated tags. So against a network that serves pages of which all
  but the last have 1000 records and the last has not, \<open>returnTags\<close> returns the
  tags of all pages in order and sends one request per page, the first with cursor 0 and
  each later one with the largest creation timestamp of the page before; when every
  record is valid there are as many tags as records (1005 for a page of 1000 and a page
  of 5).
\<close>

theorem returnTags_pagination:
  assumes "prepareUrl chainId apiKey = Inr url"
  shows
   "returnTags fetch chainId apiKey w = returnTags_loop fetch chainId url [] (Num 0) w \<and>
    (\<forall>silos w0 w1 allTags lastTimestamp.
       fetchData fetch url lastTimestamp w0 = (Inr silos, w1) \<longrightarrow>
       returnTags_loop fetch chainId url allTags lastTimestamp w0 =
         (if length silos = 1000
          then returnTags_loop fetch chainId url
                 (allTags @ fst (transformSilosToTags chainId silos w1))
                 (Num (Max (set (map createdTimestamp silos))))
                 (snd (transformSilosToTags chainId silos w1))
          else Some (Inr (allTags @ fst (transformSilosToTags chainId silos w1)),
                     snd (transformSilosToTags chainId silos w1)))) \<and>
    (pages \<noteq> [] \<and> (\<forall>p\<in>set (butlast pages). length p = 1000) \<and> length (last pages) \<noteq> 1000 \<and>
     serves fetch url (length (requests w)) (Num 0) pages \<longrightarrow>
       map_option fst (returnTags fetch chainId apiKey w) =
         Some (Inr (concat (map (\<lambda>p. fst (transformSilosToTags chainId p w)) pages))) \<and>
       map_option (requests \<circ> snd) (returnTags fetch chainId apiKey w) =
         Some (requests w @
               map (\<lambda>c. \<lparr>request_url = url, request_lastTimestamp = c\<rparr>) (cursors (Num 0) pages)) \<and>
       length (cursors (Num 0) pages) = length pages \<and>
       ((\<forall>p\<in>set pages. \<forall>s\<in>set p. \<not> containsInvalidValue (name s)) \<longrightarrow>
          length (concat (map (\<lambda>p. fst (transformSilosToTags chainId p w)) pages)) =
            sum_list (map length pages)))"
proof (intro conjI allI impI)
  show start: "returnTags fetch chainId apiKey w = returnTags_loop fetch chainId url [] (Num 0) w"
    by (simp add: returnTags_def assms)
  {
    fix silos w0 w1 allTags lastTimestamp
    assume fd: "fetchData fetch url lastTimestamp w0 = (Inr silos, w1)"
    have "length silos = 1000 \<Longrightarrow>
        Math_max (map createdTimestamp silos) = Num (Max (set (map createdTimestamp silos)))"
      by (rule Math_max_Max) auto
    with loop_success_step[OF fd, of chainId allTags]
    show "returnTags_loop fetch chainId url allTags lastTimestamp w0 =
         (if length silos = 1000
          then returnTags_loop fetch chainId url
                 (allTags @ fst (transformSilosToTags chainId silos w1))
                 (Num (Max (set (map createdTimestamp silos))))
                 (snd (transformSilosToTags chainId silos w1))
          else Some (Inr (allTags @ fst (transformSilosToTags chainId silos w1)),
                     snd (transformSilosToTags chainId silos w1)))"
      by simp
  }
  {
    assume run: "pages \<noteq> [] \<and> (\<forall>p\<in>set (butlast pages). length p = 1000) \<and>
      length (last pages) \<noteq> 1000 \<and> serves fetch url (length (requests w)) (Num 0) pages"
    then obtain w' where
      res: "returnTags_loop fetch chainId url [] (Num 0) w =
         Some (Inr ([] @ concat (map (\<lambda>p. map (silo_to_tag chainId)
                        (filter (\<lambda>s. \<not> containsInvalidValue (name s)) p)) pages)), w')"
      and req: "requests w' = requests w @
             map (\<lambda>c. \<lparr>request_url = url, request_lastTimestamp = c\<rparr>) (cursors (Num 0) pages)"
      using loop_pages[of pages fetch url w "Num 0" chainId "[]"] by blast
    show "map_option fst (returnTags fetch chainId apiKey w) =
         Some (Inr (concat (map (\<lambda>p. fst (transformSilosToTags chainId p w)) pages)))"
      using start res by (simp add: transform_tags)
    show "map_option (requests \<circ> snd) (returnTags fetch chainId apiKey w) =
         Some (requests w @
               map (\<lambda>c. \<lparr>request_url = url, request_lastTimestamp = c\<rparr>) (cursors (Num 0) pages))"
      using start res req by simp
    show "length (cursors (Num 0) pages) = length pages"
      by (induction pages arbitrary: rule: cursors.induct[where ?a0.0 = "Num 0"]) simp_all
  }
  {
    assume valid: "\<forall>p\<in>set pages. \<forall>s\<in>set p. \<not> containsInvalidValue (name s)"
    then have "\<And>p. p \<in> set pages \<Longrightarrow> filter (\<lambda>s. \<not> containsInvalidValue (name s)) p = p"
      by (simp add: filter_id_conv)
    then have "map (\<lambda>p. length (fst (transformSilosToTags chainId p w))) pages = map length pages"
      by (simp add: transform_tags)
    then have "sum_list (map (\<lambda>p. length (fst (transformSilosToTags chainId p w))) pages) =
        sum_list (map length pages)"
      by (rule arg_cong)
    then show "length (concat (map (\<lambda>p. fst (transformSilosToTags chainId p w)) pages)) =
            sum_list (map length pages)"
      by (simp add: length_concat comp_def)
  }
qed

theorem returnTags_pagination_witness:
  "map_option fst
     (returnTags
        (\<lambda>n u c. if n = 0
           then Inr (success_response
                  (replicate 1000 \<lparr>id' = js ''0xa'', name = js ''Alpha'', createdTimestamp = 1700000000\<rparr>))
           else Inr (success_response
                  (replicate 5 \<lparr>id' = js ''0xb'', name = js ''Beta'', createdTimestamp = 1700000500\<rparr>)))
        (js ''1'') (js ''key'') \<lparr>console = [], requests = []\<rparr>) =
     Some (Inr (replicate 1000
                  [(js ''Contract Address'', js ''eip155:1:0xa''),
                   (js ''Public Name Tag'', js ''Alpha Silo''),
                   (js ''Project Name'', js ''Silo v1''),
                   (js ''UI/Website Link'', js ''https://app.silo.finance/''),
                   (js ''Public Note'', js ''Silo v1's official Alpha Silo contract.'')] @
                replicate 5
                  [(js ''Contract Address'', js ''eip155:1:0xb''),
                   (js ''Public Name Tag'', js ''Beta Silo''),
                   (js ''Project Name'', js ''Silo v1''),
                   (js ''UI/Website Link'', js ''https://app.silo.finance/''),
                   (js ''Public Note'', js ''Silo v1's official Beta Silo contract.'')])) \<and>
   map_option (requests \<circ> snd)
     (returnTags
        (\<lambda>n u c. if n = 0
           then Inr (success_response
                  (replicate 1000 \<lparr>id' = js ''0xa'', name = js ''Alpha'', createdTimestamp = 1700000000\<rparr>))
           else Inr (success_response
                  (replicate 5 \<lparr>id' = js ''0xb'', name = js ''Beta'', createdTimestamp = 1700000500\<rparr>)))
        (js ''1'') (js ''key'') \<lparr>console = [], requests = []\<rparr>) =
     Some [\<lparr>request_url = js ''https://gateway.thegraph.com/api/key/subgraphs/id/GTEyHhRmhRRJkQfrDWsapcZ8sBKAka4GFej6gn3BpJNq'',
            request_lastTimestamp = Num 0\<rparr>,
           \<lparr>request_url = js ''https://gateway.thegraph.com/api/key/subgraphs/id/GTEyHhRmhRRJkQfrDWsapcZ8sBKAka4GFej6gn3BpJNq'',
            request_lastTimestamp = Num 1700000000\<rparr>] \<and>
   length (replicate 1000
                  [(js ''Contract Address'', js ''eip155:1:0xa''),
                   (js ''Public Name Tag'', js ''Alpha Silo''),
                   (js ''Project Name'', js ''Silo v1''),
                   (js ''UI/Website Link'', js ''https://app.silo.finance/''),
                   (js ''Public Note'', js ''Silo v1's official Alpha Silo contract.'')] @
                replicate 5
                  [(js ''Contract Address'', js ''eip155:1:0xb''),
                   (js ''Public Name Tag'', js ''Beta Silo''),
                   (js ''Project Name'', js ''Silo v1''),
                   (js ''UI/Website Link'', js ''https://app.silo.finance/''),
                   (js ''Public Note'', js ''Silo v1's official Beta Silo contract.'')]) = 1005"
proof -
  let ?a = "\<lparr>id' = js ''0xa'', name = js ''Alpha'', createdTimestamp = 1700000000\<rparr>"
  let ?b = "\<lparr>id' = js ''0xb'', name = js ''Beta'', createdTimestamp = 1700000500\<rparr>"
  let ?fetch = "\<lambda>(n::nat) (u::jsstring) (c::number). if n = 0
           then Inr (success_response (replicate 1000 ?a))
           else Inr (success_response (replicate 5 ?b)) :: error_object + Response"
  let ?url = "js ''https://gateway.thegraph.com/api/key/subgraphs/id/GTEyHhRmhRRJkQfrDWsapcZ8sBKAka4GFej6gn3BpJNq''"
  let ?w = "\<lparr>console = [], requests = []\<rparr>"
  have valid: "\<not> containsInvalidValue (js ''Alpha'')" "\<not> containsInvalidValue (js ''Beta'')"
    by (simp_all add: js_def cu_def containsInvalidValue_def trim_def is_whitespace_def
        match_tag_here_def)
  have set1000: "set (replicate 1000 (1700000000::int)) = {1700000000}" by simp
  have hyp: "[replicate 1000 ?a, replicate 5 ?b] \<noteq> [] \<and>
      (\<forall>p\<in>set (butlast [replicate 1000 ?a, replicate 5 ?b]). length p = 1000) \<and>
      length (last [replicate 1000 ?a, replicate 5 ?b]) \<noteq> 1000 \<and>
      serves ?fetch ?url (length (requests ?w)) (Num 0) [replicate 1000 ?a, replicate 5 ?b]"
    by (simp add: set1000)
  from returnTags_pagination[OF prepareUrl_1_key, of ?fetch ?w "[replicate 1000 ?a, replicate 5 ?b]"]
    hyp
  have "map_option fst (returnTags ?fetch (js ''1'') (js ''key'') ?w) =
         Some (Inr (concat (map (\<lambda>p. fst (transformSilosToTags (js ''1'') p ?w))
            [replicate 1000 ?a, replicate 5 ?b])))"
    and "map_option (requests \<circ> snd) (returnTags ?fetch (js ''1'') (js ''key'') ?w) =
         Some (requests ?w @
               map (\<lambda>c. \<lparr>request_url = ?url, request_lastTimestamp = c\<rparr>)
                 (cursors (Num 0) [replicate 1000 ?a, replicate 5 ?b]))"
    by blast+
  then show ?thesis
    by (simp add: transform_tags valid silo_to_tag_explicit set1000) (simp add: js_def)
qed

section \<open>The orchestrator: a failing page fetch\<close>




section \<open>The fetcher: failures\<close>

text \<open>
  Claim C8, as the code has it. When \<open>fetch\<close> resolves to a response: if the
  response is not \<open>ok\<close>, \<open>fetchData\<close> throws \<open>HTTP error: <status>\<close>;
  otherwise, if the body cannot be parsed, it throws the error that
  \<open>response.json()\<close> rejects with; otherwise, if the body parses to \<open>null\<close>, it
  throws the \<open>TypeError\<close> of reading \<open>errors\<close> from \<open>null\<close>; otherwise, for a
  body of the declared shape: if it has an \<open>errors\<close> list, \<open>fetchData\<close> logs one
  line per error with the error's message and throws an error whose text is always
  \<open>GraphQL errors occurred: see logs for details.\<close>, whatever the messages are;
  otherwise, if \<open>data\<close> or \<open>data.silos\<close> is missing, it throws
  \<open>No silos data found.\<close>; otherwise it returns the list of records. Nothing is
  logged but the lines of the \<open>errors\<close> list. When \<open>fetch\<close> itself rejects,
  \<open>fetchData\<close> throws that rejection. In every case the request is sent once.
\<close>

theorem fetchData_failures:
   "(fetch (length (requests w)) subgraphUrl lastTimestamp = Inl rejection \<longrightarrow>
       fst (fetchData fetch subgraphUrl lastTimestamp w) = Inl rejection \<and>
       console (snd (fetchData fetch subgraphUrl lastTimestamp w)) = console w) \<and>
    (fetch (length (requests w)) subgraphUrl lastTimestamp = Inr response \<and>
     \<not> ok response \<longrightarrow>
       fst (fetchData fetch subgraphUrl lastTimestamp w) =
         Inl (new_Error (js ''HTTP error: '' @ decimal (status response))) \<and>
       console (snd (fetchData fetch subgraphUrl lastTimestamp w)) = console w) \<and>
    (fetch (length (requests w)) subgraphUrl lastTimestamp = Inr response \<and>
     ok response \<and> json response = Inl rejection \<longrightarrow>
       fst (fetchData fetch subgraphUrl lastTimestamp w) = Inl rejection \<and>
       console (snd (fetchData fetch subgraphUrl lastTimestamp w)) = console w) \<and>
    (fetch (length (requests w)) subgraphUrl lastTimestamp = Inr response \<and>
     ok response \<and> json response = Inr JsonNull \<longrightarrow>
       fst (fetchData fetch subgraphUrl lastTimestamp w) =
         Inl (ErrorObject (js ''TypeError'')
                (js ''Cannot read properties of null (reading 'errors')'')) \<and>
       console (snd (fetchData fetch subgraphUrl lastTimestamp w)) = console w) \<and>
    (fetch (length (requests w)) subgraphUrl lastTimestamp = Inr response \<and>
     ok response \<and> json response = Inr (JsonObject result) \<and> errors result = Some es \<longrightarrow>
       fst (fetchData fetch subgraphUrl lastTimestamp w) =
         Inl (new_Error (js ''GraphQL errors occurred: see logs for details.'')) \<and>
       console (snd (fetchData fetch subgraphUrl lastTimestamp w)) =
         console w @ map (\<lambda>e. ConsoleError (js ''GraphQL error: '' @ message e)) es) \<and>
    (fetch (length (requests w)) subgraphUrl lastTimestamp = Inr response \<and>
     ok response \<and> json response = Inr (JsonObject result) \<and> errors result = None \<and>
     (data result = None \<or> (\<exists>d. data result = Some d \<and> data_silos d = None)) \<longrightarrow>
       fst (fetchData fetch subgraphUrl lastTimestamp w) =
         Inl (new_Error (js ''No silos data found.'')) \<and>
       console (snd (fetchData fetch subgraphUrl lastTimestamp w)) = console w) \<and>
    (fetch (length (requests w)) subgraphUrl lastTimestamp = Inr response \<and>
     ok response \<and> json response = Inr (JsonObject result) \<and> errors result = None \<and>
     data result = Some d \<and> data_silos d = Some silos \<longrightarrow>
       fst (fetchData fetch subgraphUrl lastTimestamp w) = Inr silos \<and>
       console (snd (fetchData fetch subgraphUrl lastTimestamp w)) = console w) \<and>
    requests (snd (fetchData fetch subgraphUrl lastTimestamp w)) =
      requests w @ [\<lparr>request_url = subgraphUrl, request_lastTimestamp = lastTimestamp\<rparr>]"
  by (auto simp: fetchData_def Let_def number_to_string_def foldl_console_error
      split: sum.splits option.splits json_body.splits)

theorem fetchData_failures_witness:
  "fetchData (\<lambda>n u c. Inr \<lparr>ok = False, status = 500, json = Inr JsonNull\<rparr>)
     (js ''https://example.org/'') (Num 0) \<lparr>console = [], requests = []\<rparr> =
     (Inl (new_Error (js ''HTTP error: 500'')),
      \<lparr>console = [],
       requests = [\<lparr>request_url = js ''https://example.org/'', request_lastTimestamp = Num 0\<rparr>]\<rparr>) \<and>
   fetchData (\<lambda>n u c. Inr \<lparr>ok = True, status = 200,
        json = Inr (JsonObject \<lparr>data = None,
                 errors = Some [\<lparr>message = js ''bad field''\<rparr>, \<lparr>message = js ''timeout''\<rparr>]\<rparr>)\<rparr>)
     (js ''https://example.org/'') (Num 0) \<lparr>console = [], requests = []\<rparr> =
     (Inl (new_Error (js ''GraphQL errors occurred: see logs for details.'')),
      \<lparr>console = [ConsoleError (js ''GraphQL error: bad field''), ConsoleError (js ''GraphQL error: timeout'')],
       requests = [\<lparr>request_url = js ''https://example.org/'', request_lastTimestamp = Num 0\<rparr>]\<rparr>) \<and>
   fetchData (\<lambda>n u c. Inr \<lparr>ok = True, status = 200,
        json = Inr (JsonObject \<lparr>data = None, errors = None\<rparr>)\<rparr>)
     (js ''https://example.org/'') (Num 0) \<lparr>console = [], requests = []\<rparr> =
     (Inl (new_Error (js ''No silos data found.'')),
      \<lparr>console = [],
       requests = [\<lparr>request_url = js ''https://example.org/'', request_lastTimestamp = Num 0\<rparr>]\<rparr>) \<and>
   fetchData (\<lambda>n u c. Inr \<lparr>ok = True, status = 200,
        json = Inr (JsonObject
                 \<lparr>data = Some \<lparr>data_silos =
                           Some [\<lparr>id' = js ''0xa'', name = js ''Alpha'', createdTimestamp = 7\<rparr>]\<rparr>,
                  errors = None\<rparr>)\<rparr>)
     (js ''https://example.org/'') (Num 0) \<lparr>console = [], requests = []\<rparr> =
     (Inr [\<lparr>id' = js ''0xa'', name = js ''Alpha'', createdTimestamp = 7\<rparr>],
      \<lparr>console = [],
       requests = [\<lparr>request_url = js ''https://example.org/'', request_lastTimestamp = Num 0\<rparr>]\<rparr>)"
proof -
  let ?w = "\<lparr>console = [], requests = []\<rparr>"
  let ?u = "js ''https://example.org/''"
  let ?r1 = "\<lparr>ok = False, status = 500, json = Inr JsonNull\<rparr>"
  let ?b2 = "\<lparr>data = None,
             errors = Some [\<lparr>message = js ''bad field''\<rparr>, \<lparr>message = js ''timeout''\<rparr>]\<rparr>"
  let ?r2 = "\<lparr>ok = True, status = 200, json = Inr (JsonObject ?b2)\<rparr>"
  let ?b3 = "\<lparr>data = None, errors = None\<rparr>"
  let ?r3 = "\<lparr>ok = True, status = 200, json = Inr (JsonObject ?b3)\<rparr>"
  let ?d4 = "\<lparr>data_silos = Some [\<lparr>id' = js ''0xa'', name = js ''Alpha'', createdTimestamp = 7\<rparr>]\<rparr>"
  let ?b4 = "\<lparr>data = Some ?d4, errors = None\<rparr>"
  let ?r4 = "\<lparr>ok = True, status = 200, json = Inr (JsonObject ?b4)\<rparr>"
  have c1: "fetchData (\<lambda>n u c. Inr ?r1) ?u (Num 0) ?w =
      (Inl (new_Error (js ''HTTP error: 500'')),
       \<lparr>console = [], requests = [\<lparr>request_url = ?u, request_lastTimestamp = Num 0\<rparr>]\<rparr>)"
    using fetchData_failures[where fetch = "\<lambda>n u c. Inr ?r1" and w = ?w and subgraphUrl = ?u
        and lastTimestamp = "Num 0" and response = ?r1]
    by (simp add: prod_eq_iff decimal_500) (simp add: js_def)
  have c2: "fetchData (\<lambda>n u c. Inr ?r2) ?u (Num 0) ?w =
      (Inl (new_Error (js ''GraphQL errors occurred: see logs for details.'')),
       \<lparr>console = [ConsoleError (js ''GraphQL error: bad field''),
                   ConsoleError (js ''GraphQL error: timeout'')],
        requests = [\<lparr>request_url = ?u, request_lastTimestamp = Num 0\<rparr>]\<rparr>)"
    using fetchData_failures[where fetch = "\<lambda>n u c. Inr ?r2" and w = ?w and subgraphUrl = ?u
        and lastTimestamp = "Num 0" and response = ?r2 and result = ?b2
        and es = "[\<lparr>message = js ''bad field''\<rparr>, \<lparr>message = js ''timeout''\<rparr>]"]
    by (simp add: prod_eq_iff) (simp add: js_def)
  have c3: "fetchData (\<lambda>n u c. Inr ?r3) ?u (Num 0) ?w =
      (Inl (new_Error (js ''No silos data found.'')),
       \<lparr>console = [], requests = [\<lparr>request_url = ?u, request_lastTimestamp = Num 0\<rparr>]\<rparr>)"
    using fetchData_failures[where fetch = "\<lambda>n u c. Inr ?r3" and w = ?w and subgraphUrl = ?u
        and lastTimestamp = "Num 0" and response = ?r3 and result = ?b3]
    by (simp add: prod_eq_iff)
  have c4: "fetchData (\<lambda>n u c. Inr ?r4) ?u (Num 0) ?w =
      (Inr [\<lparr>id' = js ''0xa'', name = js ''Alpha'', createdTimestamp = 7\<rparr>],
       \<lparr>console = [], requests = [\<lparr>request_url = ?u, request_lastTimestamp = Num 0\<rparr>]\<rparr>)"
    using fetchData_failures[where fetch = "\<lambda>n u c. Inr ?r4" and w = ?w and subgraphUrl = ?u
        and lastTimestamp = "Num 0" and response = ?r4 and result = ?b4 and d = ?d4
        and silos = "[\<lparr>id' = js ''0xa'', name = js ''Alpha'', createdTimestamp = 7\<rparr>]"]
    by (simp add: prod_eq_iff)
  from c1 c2 c3 c4 show ?thesis by simp
qed

text \<open>
  Three responses on which the claim as stated fails. A successful response whose body
  is not JSON has no \<open>errors\<close> list, and yet no record list is returned:
  \<open>fetchData\<close> throws the parse error. A successful response whose body is \<open>null\<close>
  misses the \<open>data\<close> field, and yet the error is not \<open>No silos data found.\<close> but a
  \<open>TypeError\<close>. And for the \<open>errors\<close> list with the one message \<open>see logs\<close>
  the text of the thrown error contains that message.
\<close>

theorem fetchData_outside_taxonomy:
  "fst (fetchData
     (\<lambda>n u c. Inr \<lparr>ok = True, status = 200,
                    json = Inl (ErrorObject (js ''FetchError'') (js ''invalid json response body''))\<rparr>)
     (js ''https://example.org/'') (Num 0) \<lparr>console = [], requests = []\<rparr>) =
     Inl (ErrorObject (js ''FetchError'') (js ''invalid json response body'')) \<and>
   fst (fetchData
     (\<lambda>n u c. Inr \<lparr>ok = True, status = 200, json = Inr JsonNull\<rparr>)
     (js ''https://example.org/'') (Num 0) \<lparr>console = [], requests = []\<rparr>) =
     Inl (ErrorObject (js ''TypeError'') (js ''Cannot read properties of null (reading 'errors')'')) \<and>
   ErrorObject (js ''TypeError'') (js ''Cannot read properties of null (reading 'errors')'') \<noteq>
     new_Error (js ''No silos data found.'') \<and>
   fst (fetchData
     (\<lambda>n u c. Inr \<lparr>ok = True, status = 200,
                    json = Inr (JsonObject \<lparr>data = None, errors = Some [\<lparr>message = js ''see logs''\<rparr>]\<rparr>)\<rparr>)
     (js ''https://example.org/'') (Num 0) \<lparr>console = [], requests = []\<rparr>) =
     Inl (new_Error (js ''GraphQL errors occurred: see logs for details.'')) \<and>
   sublist (js ''see logs'') (js ''GraphQL errors occurred: see logs for details.'')"
proof -
  have "js ''GraphQL errors occurred: see logs for details.'' =
      js ''GraphQL errors occurred: '' @ js ''see logs'' @ js '' for details.''"
    by (simp add: js_def)
  then have "sublist (js ''see logs'') (js ''GraphQL errors occurred: see logs for details.'')"
    by (simp only: sublist_appendI)
  then show ?thesis
    by (simp add: fetchData_def new_Error_def js_eq_iff)
qed

section \<open>The transformer: determinism\<close>

text \<open>
  Claim C9. The tags that \<open>transformSilosToTags\<close> returns depend on the chain
  identifier and the records only, not on the world the call runs in: a second call on
  the same arguments, in the world the first call left, returns the same tags, for a
  page of any length and for a single record.
\<close>

theorem transform_deterministic:
  "fst (transformSilosToTags chainId silos w1) = fst (transformSilosToTags chainId silos w2) \<and>
   fst (transformSilosToTags chainId silos (snd (transformSilosToTags chainId silos w1))) =
     fst (transformSilosToTags chainId silos w1) \<and>
   fst (transformSilosToTags chainId [silo] (snd (transformSilosToTags chainId [silo] w1))) =
     fst (transformSilosToTags chainId [silo] w1)"
  by (simp add: transform_tags)

theorem transform_deterministic_witness:
  "fst (transformSilosToTags (js ''1'')
          [\<lparr>id' = js ''0xa'', name = js ''Alpha'', createdTimestamp = 1\<rparr>]
          (snd (transformSilosToTags (js ''1'')
                  [\<lparr>id' = js ''0xa'', name = js ''Alpha'', createdTimestamp = 1\<rparr>]
                  \<lparr>console = [], requests = []\<rparr>))) =
   fst (transformSilosToTags (js ''1'')
          [\<lparr>id' = js ''0xa'', name = js ''Alpha'', createdTimestamp = 1\<rparr>]
          \<lparr>console = [], requests = []\<rparr>)"
  using transform_deterministic[of "js ''1''"
      "[\<lparr>id' = js ''0xa'', name = js ''Alpha'', createdTimestamp = 1\<rparr>]"
      "\<lparr>console = [], requests = []\<rparr>"]
  by blast

section \<open>The transformer: white space in names\<close>

text \<open>
  Claim C10. A record whose name is not empty after trimming and contains no
  \<open><...>\<close> is in the output, and its tag carries the name as it is, not trimmed:
  the note embeds the whole name, and the public name is the name followed by
  \<open>" Silo"\<close> when the name has at most 45 code units (its first 42 code units,
  \<open>"..."\<close> and \<open>" Silo"\<close> otherwise). When trimming would change the name, the
  note and the untruncated public name differ from what the trimmed name would give.
\<close>

theorem whitespace_kept:
  assumes "s \<in> set silos"
    and "trim (name s) \<noteq> []"
    and "\<not> (\<exists>pre mid post. name s = pre @ cu CHR ''<'' # mid @ cu CHR ''>'' # post)"
  shows "silo_to_tag chainId s \<in> set (fst (transformSilosToTags chainId silos w)) \<and>
         map_of (silo_to_tag chainId s) (js ''Public Note'') =
           Some (js ''Silo v1's official '' @ name s @ js '' Silo contract.'') \<and>
         (length (name s) \<le> 45 \<longrightarrow>
            map_of (silo_to_tag chainId s) (js ''Public Name Tag'') = Some (name s @ js '' Silo'')) \<and>
         (45 < length (name s) \<longrightarrow>
            map_of (silo_to_tag chainId s) (js ''Public Name Tag'') =
              Some (take 42 (name s) @ js ''...'' @ js '' Silo'')) \<and>
         (trim (name s) \<noteq> name s \<longrightarrow>
            map_of (silo_to_tag chainId s) (js ''Public Note'') \<noteq>
              Some (js ''Silo v1's official '' @ trim (name s) @ js '' Silo contract.'') \<and>
            (length (name s) \<le> 45 \<longrightarrow>
               map_of (silo_to_tag chainId s) (js ''Public Name Tag'') \<noteq>
                 Some (trim (name s) @ js '' Silo'')))"
proof -
  from assms(2,3) have "\<not> containsInvalidValue (name s)"
    by (simp add: containsInvalidValue_iff)
  with assms(1) have "silo_to_tag chainId s \<in> set (fst (transformSilosToTags chainId silos w))"
    by (simp add: transform_tags)
  then show ?thesis
    by (simp add: public_name_of_tag public_note_of_tag)
qed

theorem whitespace_kept_witness:
  "trim (js ''  Alpha Beta '') = js ''Alpha Beta'' \<and>
   fst (transformSilosToTags (js ''10'')
     [\<lparr>id' = js ''0xe'', name = js ''  Alpha Beta '', createdTimestamp = 5\<rparr>]
     \<lparr>console = [], requests = []\<rparr>) =
   [[(js ''Contract Address'', js ''eip155:10:0xe''),
     (js ''Public Name Tag'', js ''  Alpha Beta  Silo''),
     (js ''Project Name'', js ''Silo v1''),
     (js ''UI/Website Link'', js ''https://app.silo.finance/''),
     (js ''Public Note'', js ''Silo v1's official   Alpha Beta  Silo contract.'')]]"
proof -
  let ?s = "\<lparr>id' = js ''0xe'', name = js ''  Alpha Beta '', createdTimestamp = 5\<rparr>"
  have tr: "trim (js ''  Alpha Beta '') = js ''Alpha Beta''"
    by (simp add: js_def cu_def trim_def is_whitespace_def)
  have notag: "\<not> regex_test_tag (js ''  Alpha Beta '')"
    by (simp add: js_def cu_def match_tag_here_def)
  then have h3: "\<not> (\<exists>pre mid post. name ?s = pre @ cu CHR ''<'' # mid @ cu CHR ''>'' # post)"
    by (simp add: regex_test_tag_iff)
  have h2: "trim (name ?s) \<noteq> []" by (simp add: tr) (simp add: js_def)
  have h1: "?s \<in> set [?s]" by simp
  from whitespace_kept[OF h1 h2 h3, of "js ''10''" "\<lparr>console = [], requests = []\<rparr>"]
  have "silo_to_tag (js ''10'') ?s \<in>
      set (fst (transformSilosToTags (js ''10'') [?s] \<lparr>console = [], requests = []\<rparr>))"
    by blast
  moreover have "length (fst (transformSilosToTags (js ''10'') [?s] \<lparr>console = [], requests = []\<rparr>)) \<le> 1"
    by (simp add: transform_tags)
  ultimately have "fst (transformSilosToTags (js ''10'') [?s] \<lparr>console = [], requests = []\<rparr>) =
      [silo_to_tag (js ''10'') ?s]"
    by (cases "fst (transformSilosToTags (js ''10'') [?s] \<lparr>console = [], requests = []\<rparr>)") auto
  then show ?thesis
    by (simp add: tr silo_to_tag_explicit) (simp add: js_def)
qed

end
